theory Spec2Isabelle
  imports Complex_Main
begin

section \<open>The data indexer: crawler, index and ranked search\<close>

text \<open>
  A shallow embedding of the class \<open>DataIndexer\<close>. JavaScript strings are \<open>string\<close>
  (an absent or \<open>undefined\<close> string property is the empty string, which is exactly as
  falsy as \<open>undefined\<close> in every \<open>||\<close> and \<open>if\<close> of the source), JavaScript numbers are
  \<open>real\<close> (scores) or \<open>int\<close> (depths, limits), arrays are lists, the \<open>Set\<close> of crawled
  URLs is a set and the \<open>Map\<close> of the result merge is an association list in insertion
  order. The libraries the class calls (axios, cheerio, the URL parser, Fuse.js, the
  clock) are parameters of the model.
\<close>

subsection \<open>String primitives\<close>

definition upperAlphabet :: string where
  "upperAlphabet = ''ABCDEFGHIJKLMNOPQRSTUVWXYZ''"

definition lowerAlphabet :: string where
  "lowerAlphabet = ''abcdefghijklmnopqrstuvwxyz''"

definition digitChars :: string where
  "digitChars = ''0123456789''"

text \<open>\<open>String.prototype.toLowerCase\<close> on the ASCII letters; every other character is
  kept.\<close>

definition toLowerChar :: "char \<Rightarrow> char" where
  "toLowerChar c = (case map_of (zip upperAlphabet lowerAlphabet) c of Some d \<Rightarrow> d | None \<Rightarrow> c)"

definition toLowerCase :: "string \<Rightarrow> string" where
  "toLowerCase s = map toLowerChar s"

text \<open>The white space of \<open>\s\<close> and of \<open>trim\<close>: space, tab, line feed, vertical tab, form
  feed, carriage return.\<close>

definition isSpace :: "char \<Rightarrow> bool" where
  "isSpace c = (c \<in> set [CHR '' '', CHR 0x09, CHR 0x0A, CHR 0x0B, CHR 0x0C, CHR 0x0D])"

definition trim :: "string \<Rightarrow> string" where
  "trim s = rev (dropWhile isSpace (rev (dropWhile isSpace s)))"

text \<open>\<open>s.substring(0, n)\<close>.\<close>

definition substring0 :: "nat \<Rightarrow> string \<Rightarrow> string" where
  "substring0 n s = take n s"

text \<open>\<open>s.includes(sub)\<close>.\<close>

fun includes_str :: "string \<Rightarrow> string \<Rightarrow> bool" where
  "includes_str [] sub = (sub = [])"
| "includes_str (c # cs) sub = (take (length sub) (c # cs) = sub \<or> includes_str cs sub)"

text \<open>\<open>s.split(/\s+/)\<close>: the pieces between the maximal runs of white space, with an empty
  first (last) piece when the string starts (ends) with white space. The flag says that the
  scan is inside a run.\<close>

fun splitRuns :: "bool \<Rightarrow> string \<Rightarrow> string \<Rightarrow> string list" where
  "splitRuns inRun cur [] = [cur]"
| "splitRuns inRun cur (c # cs) =
     (if isSpace c then (if inRun then splitRuns True cur cs else cur # splitRuns True [] cs)
      else splitRuns False (cur @ [c]) cs)"

definition splitWhitespace :: "string \<Rightarrow> string list" where
  "splitWhitespace s = splitRuns False [] s"

text \<open>\<open>xs.join(sep)\<close>.\<close>

fun join :: "string \<Rightarrow> string list \<Rightarrow> string" where
  "join sep [] = []"
| "join sep [x] = x"
| "join sep (x # y # ys) = x @ sep @ join sep (y # ys)"

text \<open>\<open>[...new Set(xs)]\<close>: the first occurrence of every element, in order.\<close>

fun uniqueFirst :: "'a list \<Rightarrow> 'a list \<Rightarrow> 'a list" where
  "uniqueFirst seen [] = []"
| "uniqueFirst seen (x # xs) =
     (if x \<in> set seen then uniqueFirst seen xs else x # uniqueFirst (x # seen) xs)"

text \<open>The decimal digits of a number in a template literal.\<close>

function showNat :: "nat \<Rightarrow> string" where
  "showNat n = (if n < 10 then [digitChars ! n] else showNat (n div 10) @ [digitChars ! (n mod 10)])"
  by pat_completeness auto
termination
  by (relation "measure id") auto

text \<open>\<open>parseInt\<close> on a string of decimal digits; \<open>None\<close> is \<open>NaN\<close>.\<close>

definition digitValue :: "char \<Rightarrow> nat option" where
  "digitValue c = map_of (zip digitChars [0 ..< 10]) c"

fun parseDigits :: "nat \<Rightarrow> string \<Rightarrow> nat" where
  "parseDigits acc [] = acc"
| "parseDigits acc (c # cs) =
     (case digitValue c of None \<Rightarrow> acc | Some d \<Rightarrow> parseDigits (10 * acc + d) cs)"

definition parseInt :: "string \<Rightarrow> nat option" where
  "parseInt s = (case s of [] \<Rightarrow> None
                 | c # cs \<Rightarrow> (case digitValue c of None \<Rightarrow> None | Some d \<Rightarrow> Some (parseDigits 0 s)))"

subsection \<open>Identifiers\<close>

text \<open>\<open>generateId\<close>: lower-case, \<open>replace(/[^a-z0-9]/g, '-')\<close>, \<open>replace(/-+/g, '-')\<close>,
  \<open>replace(/^-|-$/g, '')\<close>.\<close>

definition isSlugChar :: "char \<Rightarrow> bool" where
  "isSlugChar c = (c \<in> set (lowerAlphabet @ digitChars))"

fun collapseHyphens :: "string \<Rightarrow> string" where
  "collapseHyphens [] = []"
| "collapseHyphens [c] = [c]"
| "collapseHyphens (c # d # cs) =
     (if c = CHR ''-'' \<and> d = CHR ''-'' then collapseHyphens (d # cs)
      else c # collapseHyphens (d # cs))"

definition trimHyphens :: "string \<Rightarrow> string" where
  "trimHyphens s =
     (let s1 = (case s of [] \<Rightarrow> [] | c # cs \<Rightarrow> if c = CHR ''-'' then cs else s)
      in if s1 \<noteq> [] \<and> last s1 = CHR ''-'' then butlast s1 else s1)"

definition generateId :: "string \<Rightarrow> string" where
  "generateId text =
     trimHyphens (collapseHyphens
       (map (\<lambda>c. if isSlugChar c then c else CHR ''-'') (toLowerCase text)))"

definition generateSectionId :: "string \<Rightarrow> string" where
  "generateSectionId text = substring0 50 (generateId text)"

subsection \<open>The parsed page\<close>

text \<open>What the selectors of the crawler read from a page loaded by cheerio: an element
  with its \<open>prop('tagName')\<close> (upper case), its \<open>text()\<close> and the texts of the \<open>li\<close> below
  it; a heading with its following siblings; the page.\<close>

record element =
  tagName :: string
  elemText :: string
  listItems :: "string list"

record heading =
  headingTag :: string
  headingText :: string
  following :: "element list"

record dom =
  titleText :: string
  firstH1 :: string
  metaDescription :: string
  ogDescription :: string
  firstParagraph :: string
  headings :: "heading list"
  hrefs :: "string list"

record page_section =
  sec_id :: string
  sec_title :: string
  sec_content :: string
  sec_level :: "nat option"
  sec_path :: "string list"
  sec_tags :: "string list"
  sec_url :: string

record page_structure =
  ps_title :: string
  ps_description :: string
  ps_sections :: "page_section list"

text \<open>\<open>a || b\<close> on strings.\<close>

definition orElse :: "string \<Rightarrow> string \<Rightarrow> string" where
  "orElse a b = (if a \<noteq> [] then a else b)"

text \<open>\<open>tagName.match(/^H[1-6]$/)\<close>.\<close>

definition isHeadingTag :: "string \<Rightarrow> bool" where
  "isHeadingTag t = (case t of [h, d] \<Rightarrow> h = CHR ''H'' \<and> d \<in> set ''123456'' | _ \<Rightarrow> False)"

text \<open>Comparisons of numbers that may be \<open>NaN\<close>: false when either is.\<close>

definition levelLe :: "nat option \<Rightarrow> nat option \<Rightarrow> bool" where
  "levelLe a b = (case (a, b) of (Some x, Some y) \<Rightarrow> x \<le> y | _ \<Rightarrow> False)"

definition levelLt :: "nat option \<Rightarrow> nat option \<Rightarrow> bool" where
  "levelLt a b = (case (a, b) of (Some x, Some y) \<Rightarrow> x < y | _ \<Rightarrow> False)"

text \<open>The \<open>while\<close> loop of \<open>extractSectionContent\<close> over the following siblings.\<close>

fun collectSiblings :: "string \<Rightarrow> element list \<Rightarrow> string \<Rightarrow> string" where
  "collectSiblings hTag [] content = content"
| "collectSiblings hTag (e # es) content =
     (if isHeadingTag (tagName e) \<and>
         levelLe (parseInt (drop 1 (tagName e))) (parseInt (drop 1 hTag))
      then content
      else collectSiblings hTag es
        (if tagName e = ''P'' \<or> tagName e = ''DIV'' \<or> tagName e = ''SECTION''
         then content @ trim (elemText e) @ '' ''
         else if tagName e = ''UL'' \<or> tagName e = ''OL''
         then foldl (\<lambda>c li. c @ trim li @ '' '') content (listItems e)
         else content))"

definition extractSectionContent :: "heading \<Rightarrow> string" where
  "extractSectionContent h =
     substring0 1000 (trim (collectSiblings (headingTag h) (following h) []))"

definition locationNames :: "string list" where
  "locationNames = [''adelaide'', ''melbourne'', ''sydney'', ''brisbane'', ''perth'', ''darwin'',
     ''hobart'', ''canberra'']"

definition topicNames :: "string list" where
  "topicNames = [''education'', ''health'', ''employment'', ''housing'', ''transport'',
     ''environment'', ''economy'', ''tourism'']"

definition govLevelNames :: "string list" where
  "govLevelNames = [''federal'', ''state'', ''local'', ''council'']"

definition extractSectionTags :: "string \<Rightarrow> string \<Rightarrow> string list" where
  "extractSectionTags title content =
     (let txt = toLowerCase (title @ '' '' @ content)
      in filter (includes_str txt) locationNames @ filter (includes_str txt) topicNames @
         filter (includes_str txt) govLevelNames)"

text \<open>The loop of \<open>generateSectionPath\<close>, from the last collected section to the first.\<close>

fun sectionPathLoop :: "page_section list \<Rightarrow> nat option \<Rightarrow> string list \<Rightarrow> string list" where
  "sectionPathLoop [] currentLevel path = path"
| "sectionPathLoop (s # ss) currentLevel path =
     (if levelLt (sec_level s) currentLevel
      then sectionPathLoop ss (sec_level s) (sec_title s # path)
      else sectionPathLoop ss currentLevel path)"

definition generateSectionPath :: "page_section list \<Rightarrow> nat option \<Rightarrow> string list" where
  "generateSectionPath sections currentLevel = sectionPathLoop (rev sections) currentLevel []"

text \<open>The body of \<open>headings.each\<close>: a heading with empty text adds nothing.\<close>

definition addHeading :: "string \<Rightarrow> page_section list \<Rightarrow> heading \<Rightarrow> page_section list" where
  "addHeading url sections h =
     (let level = parseInt (drop 1 (headingTag h));
          hText = trim (headingText h)
      in if length hText = 0 then sections
         else let content = extractSectionContent h;
                  sectionTags = extractSectionTags hText content
              in sections @
                 [\<lparr>sec_id = generateSectionId hText, sec_title = hText, sec_content = content,
                   sec_level = level, sec_path = generateSectionPath sections level,
                   sec_tags = sectionTags,
                   sec_url = url @ ''#'' @ generateSectionId hText\<rparr>])"

definition parsePageStructure :: "dom \<Rightarrow> string \<Rightarrow> string \<Rightarrow> string list \<Rightarrow> page_structure" where
  "parsePageStructure d url source baseTags =
     \<lparr>ps_title = orElse (trim (titleText d)) (orElse (trim (firstH1 d)) ''Untitled''),
      ps_description = orElse (metaDescription d) (orElse (ogDescription d)
                         (orElse (substring0 200 (firstParagraph d)) [])),
      ps_sections = foldl (addHeading url) [] (headings d)\<rparr>"

subsection \<open>Records, the indexer state and the outside world\<close>

text \<open>One shape for every indexable record; a property a record does not have is empty.
  \<open>item_data\<close> is the \<open>data\<close> of a fetched dataset or API, \<open>sections\<close> belongs to crawled
  documents, and \<open>parentUrl\<close>, \<open>parentTitle\<close>, \<open>level\<close>, \<open>path\<close> to content sections.\<close>

record item =
  item_id :: string
  title :: string
  description :: string
  content :: string
  source :: string
  item_type :: string
  url :: string
  tags :: "string list"
  category :: string
  lastUpdated :: "nat option"
  item_data :: string
  sections :: "page_section list"
  parentUrl :: string
  parentTitle :: string
  level :: "nat option"
  path :: "string list"

definition emptyItem :: item where
  "emptyItem = \<lparr>item_id = [], title = [], description = [], content = [], source = [],
     item_type = [], url = [], tags = [], category = [], lastUpdated = None, item_data = [],
     sections = [], parentUrl = [], parentTitle = [], level = None, path = []\<rparr>"

text \<open>The fields of the class. \<open>requests\<close> is not a field: it records, in order, the URL of
  every \<open>axios.get\<close> issued so far, the effect of the crawler on the network.\<close>

record indexer =
  datasets :: "item list"
  apis :: "item list"
  documents :: "item list"
  contentSections :: "item list"
  searchIndex :: "item list option"
  indexerLastUpdated :: "nat option"
  crawledUrls :: "string set"
  requests :: "string list"

definition maxCrawlDepth :: int where
  "maxCrawlDepth = 3"

text \<open>The state the constructor builds.\<close>

definition newIndexer :: indexer where
  "newIndexer = \<lparr>datasets = [], apis = [], documents = [], contentSections = [],
     searchIndex = None, indexerLastUpdated = None, crawledUrls = {}, requests = []\<rparr>"

text \<open>The world outside: \<open>httpGet u\<close> is the \<open>data\<close> of the response of \<open>axios.get(u)\<close>, or
  \<open>None\<close> when the request is rejected; \<open>cheerioLoad\<close> parses a body; \<open>resolveUrl href base\<close>
  is \<open>new URL(href, base).href\<close> and \<open>hostnameOf u\<close> is \<open>new URL(u).hostname\<close>, \<open>None\<close> when
  the constructor throws; \<open>clock\<close> is the reading of \<open>new Date()\<close>.\<close>

record world =
  httpGet :: "string \<Rightarrow> string option"
  cheerioLoad :: "string \<Rightarrow> dom"
  resolveUrl :: "string \<Rightarrow> string \<Rightarrow> string option"
  hostnameOf :: "string \<Rightarrow> string option"
  clock :: nat

record crawl_options =
  opt_source :: string
  opt_tags :: "string list"
  opt_maxDepth :: "int option"

definition absCodelistUrl :: string where
  "absCodelistUrl = ''https://data.api.abs.gov.au/rest/codelist/abs/CL_LGA_2021''"

definition absDataflowUrl :: string where
  "absDataflowUrl = ''https://data.api.abs.gov.au/rest/dataflow/all?detail=allstubs''"

definition absOpenapiUrl :: string where
  "absOpenapiUrl = ''https://raw.githubusercontent.com/apigovau/api-descriptions/gh-pages/abs/DataAPI.openapi.yaml''"

definition dewrUrl :: string where
  "dewrUrl = ''https://www.dewr.gov.au/''"

definition atoUrl :: string where
  "atoUrl = ''https://www.ato.gov.au/about-ato/research-and-statistics''"

definition absStatsUrl :: string where
  "absStatsUrl = ''https://www.abs.gov.au/AUSSTATS/abs@.nsf/allprimarymainfeatures/A7FFA19FF6239724CA257F65002272E1?opendocument''"

subsection \<open>The crawler\<close>

text \<open>The links of one anchor: none when the \<open>href\<close> is empty, does not resolve, or is on
  another host or already crawled.\<close>

definition internalLink :: "world \<Rightarrow> string \<Rightarrow> string \<Rightarrow> string set \<Rightarrow> string \<Rightarrow> string list" where
  "internalLink w baseUrl baseHost crawled href =
     (if href = [] then []
      else case resolveUrl w href baseUrl of None \<Rightarrow> []
           | Some absoluteUrl \<Rightarrow>
               (case hostnameOf w absoluteUrl of None \<Rightarrow> []
                | Some linkHost \<Rightarrow>
                    if linkHost = baseHost \<and> absoluteUrl \<notin> crawled then [absoluteUrl] else []))"

text \<open>\<open>None\<close> when \<open>new URL(baseUrl)\<close> throws, outside the inner \<open>try\<close>.\<close>

definition extractInternalLinks :: "world \<Rightarrow> dom \<Rightarrow> string \<Rightarrow> string set \<Rightarrow> string list option" where
  "extractInternalLinks w d baseUrl crawled =
     (case hostnameOf w baseUrl of None \<Rightarrow> None
      | Some baseHost \<Rightarrow>
          Some (uniqueFirst [] (concat (map (internalLink w baseUrl baseHost crawled) (hrefs d)))))"

definition filterRelevantLinks :: "string list \<Rightarrow> string list \<Rightarrow> string list" where
  "filterRelevantLinks links tgs =
     filter (\<lambda>link. let u = toLowerCase link
                     in list_ex (\<lambda>tag. includes_str u (toLowerCase tag)) tgs \<or>
                        includes_str u ''data'' \<or> includes_str u ''api'' \<or>
                        includes_str u ''statistics'') links"

definition maxDepthOf :: "crawl_options \<Rightarrow> int" where
  "maxDepthOf opts = (case opt_maxDepth opts of Some m \<Rightarrow> m | None \<Rightarrow> maxCrawlDepth)"

definition documentOf :: "world \<Rightarrow> string \<Rightarrow> crawl_options \<Rightarrow> string \<Rightarrow> page_structure \<Rightarrow> item" where
  "documentOf w baseUrl opts body ps =
     emptyItem\<lparr>item_id := generateId baseUrl, title := ps_title ps,
       description := ps_description ps, source := opt_source opts, item_type := ''website'',
       url := baseUrl, content := body, lastUpdated := Some (clock w), tags := opt_tags opts,
       sections := ps_sections ps\<rparr>"

definition contentSectionOf :: "world \<Rightarrow> string \<Rightarrow> crawl_options \<Rightarrow> page_structure \<Rightarrow> page_section \<Rightarrow> item" where
  "contentSectionOf w baseUrl opts ps sec =
     emptyItem\<lparr>item_id := generateId (baseUrl @ ''#'' @ sec_id sec), title := sec_title sec,
       content := sec_content sec, parentUrl := baseUrl, parentTitle := ps_title ps,
       source := opt_source opts, item_type := ''section'', level := sec_level sec,
       path := sec_path sec, tags := opt_tags opts @ sec_tags sec,
       lastUpdated := Some (clock w)\<rparr>"

text \<open>\<open>deepCrawlWebsite\<close>. A rejected request is caught and logged: the branch ends with the
  URL marked as crawled. The \<open>await\<close>s of the loop over the links run one after the other,
  each on the state the previous one left.\<close>

function deepCrawlWebsite :: "world \<Rightarrow> string \<Rightarrow> crawl_options \<Rightarrow> int \<Rightarrow> indexer \<Rightarrow> indexer" where
  "deepCrawlWebsite w baseUrl opts currentDepth s =
     (if currentDepth \<ge> maxDepthOf opts \<or> baseUrl \<in> crawledUrls s then s
      else
        let s1 = s\<lparr>crawledUrls := insert baseUrl (crawledUrls s),
                   requests := requests s @ [baseUrl]\<rparr>
        in case httpGet w baseUrl of None \<Rightarrow> s1
           | Some body \<Rightarrow>
               let pageStructure = parsePageStructure (cheerioLoad w body) baseUrl
                                     (opt_source opts) (opt_tags opts);
                   s2 = s1\<lparr>documents := documents s1 @
                              [documentOf w baseUrl opts body pageStructure],
                           contentSections := contentSections s1 @
                              map (contentSectionOf w baseUrl opts pageStructure)
                                  (ps_sections pageStructure)\<rparr>
               in if currentDepth < maxDepthOf opts - 1
                  then (case extractInternalLinks w (cheerioLoad w body) baseUrl (crawledUrls s2) of
                          None \<Rightarrow> s2
                        | Some internalLinks \<Rightarrow>
                            fold (\<lambda>link st. deepCrawlWebsite w link opts (currentDepth + 1) st)
                                 (take 5 (filterRelevantLinks internalLinks (opt_tags opts))) s2)
                  else s2)"
  by pat_completeness auto
termination
  by (relation "measure (\<lambda>(w, baseUrl, opts, currentDepth, s). nat (maxDepthOf opts - currentDepth))")
     auto

declare deepCrawlWebsite.simps [simp del]

subsection \<open>The fetch jobs, the index and the life cycle\<close>

definition absCodelistItem :: "world \<Rightarrow> string \<Rightarrow> item" where
  "absCodelistItem w body =
     emptyItem\<lparr>item_id := ''abs-codelist-lga-2021'',
       title := ''ABS Local Government Areas 2021 Codelist'',
       description := ''Australian Bureau of Statistics Local Government Areas classification for 2021'',
       source := ''Australian Bureau of Statistics'', item_type := ''codelist'',
       url := absCodelistUrl, item_data := body, lastUpdated := Some (clock w),
       tags := [''abs'', ''local-government'', ''geography'', ''classification'']\<rparr>"

definition absDataflowItem :: "world \<Rightarrow> string \<Rightarrow> item" where
  "absDataflowItem w body =
     emptyItem\<lparr>item_id := ''abs-dataflow-api'', title := ''ABS Data API - All Dataflows'',
       description := ''Complete list of available dataflows from the Australian Bureau of Statistics Data API'',
       source := ''Australian Bureau of Statistics'', item_type := ''api'',
       url := absDataflowUrl, item_data := body, lastUpdated := Some (clock w),
       tags := [''abs'', ''api'', ''dataflow'', ''statistics'']\<rparr>"

definition absOpenapiItem :: "world \<Rightarrow> string \<Rightarrow> item" where
  "absOpenapiItem w body =
     emptyItem\<lparr>item_id := ''abs-openapi-spec'', title := ''ABS Data API OpenAPI Specification'',
       description := ''Technical documentation and API specification for the ABS Data API'',
       source := ''Australian Bureau of Statistics'', item_type := ''documentation'',
       url := absOpenapiUrl, content := body, lastUpdated := Some (clock w),
       tags := [''abs'', ''api'', ''documentation'', ''openapi'', ''specification'']\<rparr>"

text \<open>\<open>fetchABSData\<close>: three requests in a row inside one \<open>try\<close>; the first rejected one
  ends the job. A response with falsy (empty) \<open>data\<close> adds no record.\<close>

definition fetchABSData :: "world \<Rightarrow> indexer \<Rightarrow> indexer" where
  "fetchABSData w s =
     (let s0 = s\<lparr>requests := requests s @ [absCodelistUrl]\<rparr>
      in case httpGet w absCodelistUrl of None \<Rightarrow> s0
         | Some codelist \<Rightarrow>
             let s1 = (if codelist \<noteq> []
                       then s0\<lparr>datasets := datasets s0 @ [absCodelistItem w codelist]\<rparr> else s0);
                 s2 = s1\<lparr>requests := requests s1 @ [absDataflowUrl]\<rparr>
             in case httpGet w absDataflowUrl of None \<Rightarrow> s2
                | Some dataflow \<Rightarrow>
                    let s3 = (if dataflow \<noteq> []
                              then s2\<lparr>apis := apis s2 @ [absDataflowItem w dataflow]\<rparr> else s2);
                        s4 = s3\<lparr>requests := requests s3 @ [absOpenapiUrl]\<rparr>
                    in case httpGet w absOpenapiUrl of None \<Rightarrow> s4
                       | Some openapi \<Rightarrow>
                           if openapi \<noteq> []
                           then s4\<lparr>documents := documents s4 @ [absOpenapiItem w openapi]\<rparr>
                           else s4)"

definition fetchDEWRData :: "world \<Rightarrow> indexer \<Rightarrow> indexer" where
  "fetchDEWRData w s =
     deepCrawlWebsite w dewrUrl
       \<lparr>opt_source = ''Department of Employment and Workplace Relations'',
        opt_tags = [''dewr'', ''employment'', ''workplace-relations'', ''government''],
        opt_maxDepth = Some 2\<rparr> 0 s"

definition fetchATOData :: "world \<Rightarrow> indexer \<Rightarrow> indexer" where
  "fetchATOData w s =
     deepCrawlWebsite w atoUrl
       \<lparr>opt_source = ''Australian Taxation Office'',
        opt_tags = [''ato'', ''taxation'', ''research'', ''statistics'', ''government''],
        opt_maxDepth = Some 2\<rparr> 0 s"

definition fetchABSStatsData :: "world \<Rightarrow> indexer \<Rightarrow> indexer" where
  "fetchABSStatsData w s =
     deepCrawlWebsite w absStatsUrl
       \<lparr>opt_source = ''Australian Bureau of Statistics'',
        opt_tags = [''abs'', ''statistics'', ''data'', ''government'', ''census''],
        opt_maxDepth = Some 2\<rparr> 0 s"

text \<open>\<open>fetchAllData\<close> starts the four jobs in this order and waits for all of them; the
  model runs them one after the other.\<close>

definition fetchAllData :: "world \<Rightarrow> indexer \<Rightarrow> indexer" where
  "fetchAllData w s = fetchABSStatsData w (fetchATOData w (fetchDEWRData w (fetchABSData w s)))"

text \<open>The list handed to \<open>new Fuse\<close>: every record, stamped with the category of its
  collection.\<close>

definition allItems :: "indexer \<Rightarrow> item list" where
  "allItems s =
     map (\<lambda>i. i\<lparr>category := ''dataset''\<rparr>) (datasets s) @
     map (\<lambda>i. i\<lparr>category := ''api''\<rparr>) (apis s) @
     map (\<lambda>i. i\<lparr>category := ''document''\<rparr>) (documents s) @
     map (\<lambda>i. i\<lparr>category := ''section''\<rparr>) (contentSections s)"

definition buildSearchIndex :: "indexer \<Rightarrow> indexer" where
  "buildSearchIndex s = s\<lparr>searchIndex := Some (allItems s)\<rparr>"

definition initialize :: "world \<Rightarrow> indexer \<Rightarrow> indexer" where
  "initialize w s = (buildSearchIndex (fetchAllData w s))\<lparr>indexerLastUpdated := Some (clock w)\<rparr>"

definition refreshData :: "world \<Rightarrow> indexer \<Rightarrow> indexer" where
  "refreshData w s =
     (buildSearchIndex (fetchAllData w (s\<lparr>datasets := [], apis := [], documents := []\<rparr>)))
       \<lparr>indexerLastUpdated := Some (clock w)\<rparr>"

record stats =
  st_datasets :: nat
  st_apis :: nat
  st_documents :: nat
  st_total :: nat
  st_lastUpdated :: "nat option"

definition getStats :: "indexer \<Rightarrow> stats" where
  "getStats s =
     \<lparr>st_datasets = length (datasets s), st_apis = length (apis s),
      st_documents = length (documents s),
      st_total = length (datasets s) + length (apis s) + length (documents s),
      st_lastUpdated = indexerLastUpdated s\<rparr>"

text \<open>\<open>addCustomData\<close>: the submitted object is a record with some properties empty; it
  returns the stored item and the new state.\<close>

definition customItem :: "world \<Rightarrow> item \<Rightarrow> item" where
  "customItem w d =
     d\<lparr>item_id := orElse (item_id d) (''custom-'' @ showNat (clock w)),
       lastUpdated := Some (clock w), category := orElse (category d) ''custom''\<rparr>"

definition addCustomData :: "world \<Rightarrow> item \<Rightarrow> indexer \<Rightarrow> item \<times> indexer" where
  "addCustomData w d s =
     (let it = customItem w d;
          s1 = (if category d = ''dataset'' then s\<lparr>datasets := datasets s @ [it]\<rparr>
                else if category d = ''api'' then s\<lparr>apis := apis s @ [it]\<rparr>
                else s\<lparr>documents := documents s @ [it]\<rparr>)
      in (it, buildSearchIndex s1))"

subsection \<open>The query engine\<close>

datatype search_type = Semantic | Exact | Fuzzy | Partial

text \<open>A hit as a strategy returns it (from Fuse.js, without a context score, or from
  \<open>searchWithContext\<close>), a hit tagged with its strategy, and an entry of the merge with its
  composite score.\<close>

record raw_hit =
  raw_item :: item
  raw_score :: real
  raw_contextScore :: "real option"
  raw_matches :: "string list"

record hit =
  hitItem :: item
  score :: real
  contextScore :: "real option"
  matches :: "string list"
  searchType :: search_type

record ranked =
  rankedHit :: hit
  relevanceScore :: real

record query_analysis =
  originalQuery :: string
  words :: "string list"
  locations :: "string list"
  topics :: "string list"
  govLevels :: "string list"
  hasContext :: bool
  isSpecific :: bool

record search_options =
  so_limit :: "int option"
  so_category :: string
  so_source :: string
  so_type :: string

record search_result =
  res_item :: item
  res_score :: real
  res_relevanceScore :: real
  res_matches :: "string list"
  res_searchType :: search_type
  res_queryAnalysis :: query_analysis

record search_response =
  resp_results :: "search_result list"
  resp_total :: nat
  resp_query :: string
  resp_filters :: search_options
  resp_suggestions :: "string list"

definition analyzeQuery :: "string \<Rightarrow> query_analysis" where
  "analyzeQuery query =
     (let lowerQuery = toLowerCase query;
          detectedLocations = filter (includes_str lowerQuery) locationNames;
          detectedTopics = filter (includes_str lowerQuery) topicNames;
          detectedGovLevels = filter (includes_str lowerQuery) govLevelNames
      in \<lparr>originalQuery = query, words = splitWhitespace lowerQuery,
           locations = detectedLocations, topics = detectedTopics,
           govLevels = detectedGovLevels,
           hasContext = (length detectedLocations > 0 \<or> length detectedTopics > 0),
           isSpecific = (length detectedLocations > 0 \<and> length detectedTopics > 0)\<rparr>)"

text \<open>The context score of one record.\<close>

definition contextScoreOf :: "query_analysis \<Rightarrow> item \<Rightarrow> real" where
  "contextScoreOf qa it =
     (let itemText = toLowerCase (title it @ '' '' @ orElse (content it) (orElse (description it) []));
          hasTerm = (\<lambda>t. t \<in> set (tags it) \<or> includes_str itemText t);
          c1 = foldl (\<lambda>c t. if hasTerm t then c + 10 else c) 0 (locations qa);
          c2 = foldl (\<lambda>c t. if hasTerm t then c + 8 else c) c1 (topics qa);
          c3 = foldl (\<lambda>c t. if hasTerm t then c + 5 else c) c2 (govLevels qa)
      in if category it = ''section'' then c3 + 3 else c3)"

definition contextOrZero :: "raw_hit \<Rightarrow> real" where
  "contextOrZero r = (case raw_contextScore r of Some c \<Rightarrow> c | None \<Rightarrow> 0)"

definition searchWithContext :: "indexer \<Rightarrow> query_analysis \<Rightarrow> raw_hit list" where
  "searchWithContext s qa =
     sort_key (\<lambda>r. - contextOrZero r)
       (concat (map (\<lambda>it. let c = contextScoreOf qa it
                          in if c > 0
                             then [\<lparr>raw_item = it, raw_score = 1 / (c + 1),
                                    raw_contextScore = Some c, raw_matches = []\<rparr>]
                             else [])
                    (allItems s)))"

definition calculateRelevanceScore :: "hit \<Rightarrow> query_analysis \<Rightarrow> real" where
  "calculateRelevanceScore result queryAnalysis =
     (let score0 = 100;
          score1 = (case searchType result of
                      Semantic \<Rightarrow> score0 + 50 | Exact \<Rightarrow> score0 + 40
                    | Fuzzy \<Rightarrow> score0 + 20 | Partial \<Rightarrow> score0 + 10);
          score2 = score1 - score result * 100;
          score3 = (case contextScore result of
                      Some c \<Rightarrow> if c \<noteq> 0 then score2 + c else score2
                    | None \<Rightarrow> score2);
          score4 = (if isSpecific queryAnalysis \<and> category (hitItem result) = ''section''
                    then score3 + 20 else score3)
      in max 0 score4)"

definition generateSearchSuggestions :: "query_analysis \<Rightarrow> ranked list \<Rightarrow> string list" where
  "generateSearchSuggestions qa results =
     (let s1 = (if length (topics qa) > 0 \<and> length (locations qa) = 0
                then [''Try adding a location: '' @ [CHR 0x22] @ originalQuery qa @
                      '' in adelaide'' @ [CHR 0x22]] else []);
          s2 = (if length (locations qa) > 0 \<and> length (topics qa) = 0
                then [''Try adding a topic: '' @ [CHR 0x22] @ ''education '' @
                      originalQuery qa @ [CHR 0x22]] else []);
          resultTags = concat (map (\<lambda>r. tags (hitItem (rankedHit r))) results);
          commonTags = take 3 (uniqueFirst [] resultTags)
      in s1 @ s2 @ (if length commonTags > 0
                    then [''Related topics: '' @ join '', '' commonTags] else []))"

definition tagHit :: "search_type \<Rightarrow> raw_hit \<Rightarrow> hit" where
  "tagHit t r = \<lparr>hitItem = raw_item r, score = raw_score r, contextScore = raw_contextScore r,
                 matches = raw_matches r, searchType = t\<rparr>"

text \<open>\<open>Map.prototype.set\<close>: a present key keeps its place, a new key goes last.\<close>

fun mapSet :: "'k \<Rightarrow> 'v \<Rightarrow> ('k \<times> 'v) list \<Rightarrow> ('k \<times> 'v) list" where
  "mapSet k v [] = [(k, v)]"
| "mapSet k v (p # ps) = (if fst p = k then (k, v) # ps else p # mapSet k v ps)"

definition mergeKey :: "hit \<Rightarrow> string" where
  "mergeKey result = orElse (item_id (hitItem result)) (title (hitItem result))"

text \<open>The body of the \<open>forEach\<close> that removes duplicates.\<close>

definition mergeStep :: "query_analysis \<Rightarrow> (string \<times> ranked) list \<Rightarrow> hit \<Rightarrow> (string \<times> ranked) list" where
  "mergeStep queryAnalysis uniqueResults result =
     (let k = mergeKey result
      in case map_of uniqueResults k of
           None \<Rightarrow>
             mapSet k \<lparr>rankedHit = result,
                       relevanceScore = calculateRelevanceScore result queryAnalysis\<rparr> uniqueResults
         | Some existingResult \<Rightarrow>
             if searchType result = Semantic \<or>
                (score (rankedHit existingResult) > score result \<and> searchType result \<noteq> Partial)
             then mapSet k \<lparr>rankedHit = result,
                            relevanceScore = calculateRelevanceScore result queryAnalysis\<rparr> uniqueResults
             else uniqueResults)"

definition dedupe :: "query_analysis \<Rightarrow> hit list \<Rightarrow> ranked list" where
  "dedupe queryAnalysis results = map snd (foldl (mergeStep queryAnalysis) [] results)"

text \<open>\<open>xs.slice(0, limit)\<close>.\<close>

definition sliceTo :: "int \<Rightarrow> 'a list \<Rightarrow> 'a list" where
  "sliceTo limit xs = (if limit < 0 then take (nat (int (length xs) + limit)) xs
                       else take (nat limit) xs)"

definition emptyResponse :: "string \<Rightarrow> search_options \<Rightarrow> search_response" where
  "emptyResponse query options =
     \<lparr>resp_results = [], resp_total = 0, resp_query = query, resp_filters = options,
      resp_suggestions = []\<rparr>"

text \<open>\<open>search\<close>. \<open>fuse index q\<close> is \<open>this.searchIndex.search(q)\<close> on the index built
  from the list \<open>index\<close>.\<close>

definition search :: "(item list \<Rightarrow> string \<Rightarrow> raw_hit list) \<Rightarrow> string \<Rightarrow> search_options \<Rightarrow> indexer \<Rightarrow> search_response" where
  "search fuse query options s =
     (case searchIndex s of None \<Rightarrow> emptyResponse query options
      | Some index \<Rightarrow>
          if query = [] then emptyResponse query options
          else
            let limit = (case so_limit options of None \<Rightarrow> 50 | Some l \<Rightarrow> l);
                queryAnalysis = analyzeQuery query;
                results1 = (if hasContext queryAnalysis
                            then map (tagHit Semantic) (searchWithContext s queryAnalysis) else []);
                results2 = results1 @ map (tagHit Exact) (fuse index ([CHR 0x22] @ query @ [CHR 0x22]));
                results3 = results2 @ map (tagHit Fuzzy) (fuse index query);
                ws = filter (\<lambda>word. length word > 2) (splitWhitespace (toLowerCase query));
                results4 = foldl (\<lambda>rs word. rs @ map (tagHit Partial) (fuse index word)) results3 ws;
                unique = dedupe queryAnalysis results4;
                byCategory = (if so_category options \<noteq> []
                              then filter (\<lambda>r. category (hitItem (rankedHit r)) = so_category options) unique
                              else unique);
                bySource = (if so_source options \<noteq> []
                            then filter (\<lambda>r. source (hitItem (rankedHit r)) = so_source options) byCategory
                            else byCategory);
                byType = (if so_type options \<noteq> []
                          then filter (\<lambda>r. item_type (hitItem (rankedHit r)) = so_type options) bySource
                          else bySource);
                ordered = sort_key (\<lambda>r. - relevanceScore r) byType;
                limited = sliceTo limit ordered
            in \<lparr>resp_results =
                   map (\<lambda>r. \<lparr>res_item = hitItem (rankedHit r), res_score = score (rankedHit r),
                              res_relevanceScore = relevanceScore r,
                              res_matches = matches (rankedHit r),
                              res_searchType = searchType (rankedHit r),
                              res_queryAnalysis = queryAnalysis\<rparr>) limited,
                 resp_total = length limited, resp_query = query, resp_filters = options,
                 resp_suggestions = generateSearchSuggestions queryAnalysis limited\<rparr>)"

subsection \<open>Notions of the statements and example inputs\<close>

text \<open>The shape of an identifier: lower-case letters, digits and single hyphens, with no
  hyphen at either end.\<close>

definition slugOrHyphen :: "char \<Rightarrow> bool" where
  "slugOrHyphen c = (isSlugChar c \<or> c = CHR ''-'')"

fun noHyphenRun :: "string \<Rightarrow> bool" where
  "noHyphenRun (c # d # cs) = (\<not> (c = CHR ''-'' \<and> d = CHR ''-'') \<and> noHyphenRun (d # cs))"
| "noHyphenRun _ = True"

definition isSlug :: "string \<Rightarrow> bool" where
  "isSlug s = (list_all slugOrHyphen s \<and> noHyphenRun s \<and>
               (s \<noteq> [] \<longrightarrow> hd s \<noteq> CHR ''-'' \<and> last s \<noteq> CHR ''-''))"

text \<open>Two strings that differ only in letter case or in which non-alphanumeric character
  (punctuation, space or hyphen) stands at a position.\<close>

definition sameUpToCaseAndPunctuation :: "string \<Rightarrow> string \<Rightarrow> bool" where
  "sameUpToCaseAndPunctuation s t =
     list_all2 (\<lambda>a b. (isSlugChar (toLowerChar a) \<and> toLowerChar a = toLowerChar b) \<or>
                       (\<not> isSlugChar (toLowerChar a) \<and> \<not> isSlugChar (toLowerChar b))) s t"

text \<open>A hit of the fuzzy index for a query with a location and a topic.\<close>

definition exampleHit :: hit where
  "exampleHit = \<lparr>hitItem = emptyItem\<lparr>item_id := ''abs-codelist-lga-2021''\<rparr>, score = 1 / 4,
     contextScore = None, matches = [], searchType = Fuzzy\<rparr>"

definition noOptions :: search_options where
  "noOptions = \<lparr>so_limit = None, so_category = [], so_source = [], so_type = []\<rparr>"

definition emptyDom :: dom where
  "emptyDom = \<lparr>titleText = [], firstH1 = [], metaDescription = [], ogDescription = [],
     firstParagraph = [], headings = [], hrefs = []\<rparr>"

text \<open>A world in which every request is rejected.\<close>

definition quietWorld :: world where
  "quietWorld = \<lparr>httpGet = (\<lambda>u. None), cheerioLoad = (\<lambda>b. emptyDom),
     resolveUrl = (\<lambda>h b. None), hostnameOf = (\<lambda>u. None), clock = 7\<rparr>"

text \<open>A record submitted through \<open>addCustomData\<close>, and an index that answers the quoted
  query of three spaces with every record, as a fuzzy index does for a title that holds
  runs of spaces.\<close>

definition customNote :: item where
  "customNote = emptyItem\<lparr>title := ''a  b  c''\<rparr>"

definition whitespaceFuse :: "item list \<Rightarrow> string \<Rightarrow> raw_hit list" where
  "whitespaceFuse index q =
     (if q = [CHR 0x22] @ ''   '' @ [CHR 0x22]
      then map (\<lambda>it. \<lparr>raw_item = it, raw_score = 1 / 3, raw_contextScore = None,
                       raw_matches = []\<rparr>) index
      else [])"

text \<open>A small site: the seed page links to a data page, which links to an API page. The
  other endpoints reject every request.\<close>

definition seedPage :: dom where
  "seedPage = emptyDom\<lparr>titleText := ''Employment'',
     headings := [\<lparr>headingTag = ''H1'', headingText = '' Jobs in Perth '',
                   following = [\<lparr>tagName = ''P'', elemText = ''Local employment data'',
                                 listItems = []\<rparr>]\<rparr>],
     hrefs := [''data'']\<rparr>"

definition dataPage :: dom where
  "dataPage = emptyDom\<lparr>titleText := ''Data'', hrefs := [''data/api'']\<rparr>"

definition apiPage :: dom where
  "apiPage = emptyDom\<lparr>titleText := ''API''\<rparr>"

definition smallWeb :: world where
  "smallWeb =
     \<lparr>httpGet = (\<lambda>u. if u = dewrUrl then Some ''seed''
                     else if u = dewrUrl @ ''data'' then Some ''data''
                     else if u = dewrUrl @ ''data/api'' then Some ''api'' else None),
      cheerioLoad = (\<lambda>b. if b = ''seed'' then seedPage else if b = ''data'' then dataPage
                         else if b = ''api'' then apiPage else emptyDom),
      resolveUrl = (\<lambda>href base. Some (dewrUrl @ href)),
      hostnameOf = (\<lambda>u. Some ''www.dewr.gov.au''),
      clock = 7\<rparr>"

definition dewrOptions :: crawl_options where
  "dewrOptions = \<lparr>opt_source = ''Department of Employment and Workplace Relations'',
     opt_tags = [''dewr'', ''employment'', ''workplace-relations'', ''government''],
     opt_maxDepth = Some 2\<rparr>"

text \<open>What every section of a parsed page satisfies: its id is the slug of its title cut
  to 50 characters, and its anchor ends in that id.\<close>

definition sectionIdOk :: "string \<Rightarrow> page_section \<Rightarrow> bool" where
  "sectionIdOk pageUrl sec =
     (sec_id sec = substring0 50 (generateId (sec_title sec)) \<and> length (sec_id sec) \<le> 50 \<and>
      sec_url sec = pageUrl @ ''#'' @ sec_id sec)"

text \<open>A page with two headings that differ after the fiftieth character of their slug.\<close>

definition longHeadingsPage :: dom where
  "longHeadingsPage = emptyDom\<lparr>headings :=
     [\<lparr>headingTag = ''H2'',
       headingText = ''Employment and workplace relations statistics for Perth 2021'',
       following = []\<rparr>,
      \<lparr>headingTag = ''H2'',
       headingText = ''Employment and workplace relations statistics for Perth 2022'',
       following = []\<rparr>]\<rparr>"

text \<open>The entry the merge stores for a hit, and the invariant of the merge: one entry
  for a key, stored under the key of its hit.\<close>

definition entryOf :: "query_analysis \<Rightarrow> hit \<Rightarrow> ranked" where
  "entryOf qa r = \<lparr>rankedHit = r, relevanceScore = calculateRelevanceScore r qa\<rparr>"

definition mergeInv :: "(string \<times> ranked) list \<Rightarrow> bool" where
  "mergeInv m = (distinct (map fst m) \<and> (\<forall>(k, v) \<in> set m. mergeKey (rankedHit v) = k))"

text \<open>A record titled with the words of the query in another order, and an index that
  scores the quoted phrase worse (1/2) than the separate words (1/100), as a fuzzy index
  does where the words match exactly and the phrase only approximately.\<close>

definition taxNote :: item where
  "taxNote = emptyItem\<lparr>title := ''Stats on tax'', category := ''dataset''\<rparr>"

definition phraseFuse :: "item list \<Rightarrow> string \<Rightarrow> raw_hit list" where
  "phraseFuse index q =
     map (\<lambda>it. \<lparr>raw_item = it,
                 raw_score = (if q = [CHR 0x22] @ ''tax stats'' @ [CHR 0x22] then 1 / 2 else 1 / 100),
                 raw_contextScore = None, raw_matches = []\<rparr>) index"

text \<open>The exact and the fuzzy hit of one record, the fuzzy one with the better score.\<close>

definition exactTaxHit :: hit where
  "exactTaxHit = \<lparr>hitItem = taxNote, score = 1 / 2, contextScore = None, matches = [],
     searchType = Exact\<rparr>"

definition fuzzyTaxHit :: hit where
  "fuzzyTaxHit = \<lparr>hitItem = taxNote, score = 1 / 100, contextScore = None, matches = [],
     searchType = Fuzzy\<rparr>"

text \<open>The two state updates of \<open>deepCrawlWebsite\<close>: marking a URL as crawled when its
  request is issued, and storing the document and the sections of a fetched page.\<close>

definition markCrawled :: "string \<Rightarrow> indexer \<Rightarrow> indexer" where
  "markCrawled u s = s\<lparr>crawledUrls := insert u (crawledUrls s), requests := requests s @ [u]\<rparr>"

definition storePage :: "world \<Rightarrow> string \<Rightarrow> crawl_options \<Rightarrow> string \<Rightarrow> indexer \<Rightarrow> indexer" where
  "storePage w u opts body s =
     (let ps = parsePageStructure (cheerioLoad w body) u (opt_source opts) (opt_tags opts)
      in s\<lparr>documents := documents s @ [documentOf w u opts body ps],
           contentSections := contentSections s @ map (contentSectionOf w u opts ps) (ps_sections ps)\<rparr>)"

text \<open>The link graph of the world: every \<open>href\<close> of a page that resolves, whether the
  crawler follows it or not, and the URLs at most \<open>k\<close> links away from a URL.\<close>

definition pageLinks :: "world \<Rightarrow> string \<Rightarrow> string list" where
  "pageLinks w u =
     (case httpGet w u of None \<Rightarrow> []
      | Some body \<Rightarrow>
          concat (map (\<lambda>href. case resolveUrl w href u of None \<Rightarrow> [] | Some a \<Rightarrow> [a])
                      (hrefs (cheerioLoad w body))))"

fun reachWithin :: "world \<Rightarrow> nat \<Rightarrow> string \<Rightarrow> string set" where
  "reachWithin w 0 u = {u}"
| "reachWithin w (Suc k) u = insert u (\<Union>v \<in> set (pageLinks w u). reachWithin w k v)"

text \<open>Everything a crawl added to the state \<open>s0\<close> belongs to a URL of the set \<open>A\<close>.\<close>

definition crawledWithin :: "string set \<Rightarrow> indexer \<Rightarrow> indexer \<Rightarrow> bool" where
  "crawledWithin A s0 s =
     ((\<forall>doc \<in> set (documents s). doc \<in> set (documents s0) \<or> url doc \<in> A) \<and>
      (\<forall>sec \<in> set (contentSections s). sec \<in> set (contentSections s0) \<or> parentUrl sec \<in> A) \<and>
      (\<forall>u \<in> set (requests s). u \<in> set (requests s0) \<or> u \<in> A))"

text \<open>What \<open>fetchABSData\<close> adds to the datasets; a state whose records carry no category
  of their own (only \<open>addCustomData\<close> writes one); and a request log in which every URL
  occurs once and is marked as crawled.\<close>

definition absDatasets :: "world \<Rightarrow> item list" where
  "absDatasets w = (case httpGet w absCodelistUrl of None \<Rightarrow> []
                    | Some b \<Rightarrow> if b = [] then [] else [absCodelistItem w b])"

definition uncategorised :: "indexer \<Rightarrow> bool" where
  "uncategorised s = (\<forall>x \<in> set (datasets s @ apis s @ documents s). category x = [])"

definition requestsTracked :: "indexer \<Rightarrow> bool" where
  "requestsTracked s = (distinct (requests s) \<and> set (requests s) \<subseteq> crawledUrls s)"

text \<open>A page whose only heading is followed by a paragraph of 1200 characters.\<close>

definition longTextPage :: dom where
  "longTextPage = emptyDom\<lparr>headings :=
     [\<lparr>headingTag = ''H2'', headingText = ''Census'',
       following = [\<lparr>tagName = ''P'', elemText = replicate 1200 CHR ''a'',
                     listItems = []\<rparr>]\<rparr>]\<rparr>"

section \<open>Verified properties\<close>

subsection \<open>Identifiers\<close>

lemma slug_chars_not_upper:
  "list_all (\<lambda>c. c \<notin> set upperAlphabet) (CHR ''-'' # lowerAlphabet @ digitChars)"
  by code_simp

lemma toLowerChar_not_upper: "c \<notin> set upperAlphabet \<Longrightarrow> toLowerChar c = c"
proof -
  assume "c \<notin> set upperAlphabet"
  moreover have "length upperAlphabet = length lowerAlphabet"
    by (simp add: upperAlphabet_def lowerAlphabet_def)
  ultimately have "map_of (zip upperAlphabet lowerAlphabet) c = None"
    by (simp add: map_of_zip_is_None)
  then show ?thesis by (simp add: toLowerChar_def)
qed

lemma toLowerChar_slug: "slugOrHyphen c \<Longrightarrow> toLowerChar c = c"
  using slug_chars_not_upper
  by (intro toLowerChar_not_upper) (auto simp: slugOrHyphen_def isSlugChar_def list_all_iff)

lemma collapse_all: "list_all P s \<Longrightarrow> list_all P (collapseHyphens s)"
  by (induction s rule: collapseHyphens.induct) auto

lemma collapse_hd: "collapseHyphens (c # cs) \<noteq> [] \<and> hd (collapseHyphens (c # cs)) = c"
  by (induction "c # cs" arbitrary: c cs rule: collapseHyphens.induct) auto

lemma collapse_noRun: "noHyphenRun (collapseHyphens s)"
proof (induction s rule: collapseHyphens.induct)
  case (3 c d cs)
  obtain r where r: "collapseHyphens (d # cs) = d # r"
    using collapse_hd[of d cs] by (cases "collapseHyphens (d # cs)") auto
  with 3 show ?case by auto
qed auto

lemma collapse_id: "noHyphenRun s \<Longrightarrow> collapseHyphens s = s"
  by (induction s rule: collapseHyphens.induct) auto

lemma noRun_tl: "noHyphenRun (c # cs) \<Longrightarrow> noHyphenRun cs"
  by (cases cs) auto

lemma noRun_butlast: "noHyphenRun s \<Longrightarrow> noHyphenRun (butlast s)"
  by (induction s rule: noHyphenRun.induct) (auto split: if_splits)

lemma noRun_last:
  "noHyphenRun s \<Longrightarrow> s \<noteq> [] \<Longrightarrow> last s = CHR ''-'' \<Longrightarrow> butlast s \<noteq> [] \<Longrightarrow>
   last (butlast s) \<noteq> CHR ''-''"
  by (induction s rule: noHyphenRun.induct) (auto split: if_splits)

lemma all_butlast: "list_all P s \<Longrightarrow> list_all P (butlast s)"
  by (induction s) auto

lemma hd_butlast: "butlast s \<noteq> [] \<Longrightarrow> hd (butlast s) = hd s"
  by (cases s) (auto split: if_splits)

lemma trim_isSlug:
  assumes "list_all slugOrHyphen s" "noHyphenRun s"
  shows "isSlug (trimHyphens s)"
proof -
  define s1 where "s1 = (case s of [] \<Rightarrow> [] | c # cs \<Rightarrow> if c = CHR ''-'' then cs else s)"
  have a1: "list_all slugOrHyphen s1" and n1: "noHyphenRun s1"
    and h1: "s1 \<noteq> [] \<Longrightarrow> hd s1 \<noteq> CHR ''-''"
    using assms unfolding s1_def
    by (auto split: list.splits dest: noRun_tl) (case_tac x22; auto)+
  have t: "trimHyphens s = (if s1 \<noteq> [] \<and> last s1 = CHR ''-'' then butlast s1 else s1)"
    by (simp add: trimHyphens_def s1_def)
  show ?thesis
  proof (cases "s1 \<noteq> [] \<and> last s1 = CHR ''-''")
    case True
    then show ?thesis
      using a1 n1 h1 t noRun_last[of s1]
      by (auto simp: isSlug_def all_butlast noRun_butlast hd_butlast)
  next
    case False
    then show ?thesis using a1 n1 h1 t by (auto simp: isSlug_def)
  qed
qed

lemma generateId_isSlug: "isSlug (generateId s)"
  unfolding generateId_def
  by (rule trim_isSlug)
     (auto simp: collapse_noRun slugOrHyphen_def list_all_iff
           intro!: collapse_all[unfolded list_all_iff])

lemma trim_id: "isSlug s \<Longrightarrow> trimHyphens s = s"
  by (cases s) (auto simp: isSlug_def trimHyphens_def)

lemma generateId_fix: "isSlug s \<Longrightarrow> generateId s = s"
proof -
  assume s: "isSlug s"
  then have a: "list_all slugOrHyphen s" and n: "noHyphenRun s" by (auto simp: isSlug_def)
  have 1: "toLowerCase s = s" using a
    by (auto simp: toLowerCase_def list_all_iff toLowerChar_slug intro: map_idI)
  have 2: "map (\<lambda>c. if isSlugChar c then c else CHR ''-'') s = s" using a
    by (auto simp: list_all_iff slugOrHyphen_def intro!: map_idI)
  show ?thesis using s by (simp add: generateId_def 1 2 collapse_id[OF n] trim_id)
qed

lemma generateId_cong:
  assumes "sameUpToCaseAndPunctuation s t"
  shows "generateId s = generateId t"
proof -
  have "map (\<lambda>c. if isSlugChar c then c else CHR ''-'') (toLowerCase s)
      = map (\<lambda>c. if isSlugChar c then c else CHR ''-'') (toLowerCase t)"
    using assms unfolding sameUpToCaseAndPunctuation_def toLowerCase_def
    by (induction s t rule: list_all2_induct) auto
  then show ?thesis by (simp add: generateId_def)
qed

lemma generateId_example: "generateId ''ABS Census 2021!'' = ''abs-census-2021''"
  by code_simp

lemma same_example: "sameUpToCaseAndPunctuation ''ABS Census 2021!'' ''abs-census_2021?''"
  by code_simp

text \<open>
  C8. \<open>generateId\<close> is idempotent; its result holds only lower-case letters, digits and
  single hyphens, none of them at either end; two inputs that differ only in letter case
  or in which non-alphanumeric character stands at a position (punctuation versus hyphen)
  get the same id; and \<open>generateId("ABS Census 2021!")\<close> is \<open>"abs-census-2021"\<close>.
\<close>

theorem generateId_idempotent_collapsing:
  "generateId (generateId s) = generateId s \<and> isSlug (generateId s) \<and>
   (sameUpToCaseAndPunctuation s t \<longrightarrow> generateId s = generateId t) \<and>
   generateId ''ABS Census 2021!'' = ''abs-census-2021''"
proof (intro conjI impI)
  show "generateId (generateId s) = generateId s"
    by (rule generateId_fix[OF generateId_isSlug])
  show "isSlug (generateId s)"
    by (rule generateId_isSlug)
  show "generateId s = generateId t" if "sameUpToCaseAndPunctuation s t"
    using that by (rule generateId_cong)
  show "generateId ''ABS Census 2021!'' = ''abs-census-2021''"
    by (rule generateId_example)
qed

theorem generateId_idempotent_collapsing_witness:
  "generateId ''ABS Census 2021!'' = generateId ''abs-census_2021?'' \<and>
   generateId (generateId ''ABS Census 2021!'') = generateId ''ABS Census 2021!''"
  using generateId_idempotent_collapsing[of "''ABS Census 2021!''" "''abs-census_2021?''"]
    same_example
  by blast

subsection \<open>Composite relevance score\<close>

lemma analyzeQuery_isSpecific:
  "isSpecific (analyzeQuery q) =
     (locations (analyzeQuery q) \<noteq> [] \<and> topics (analyzeQuery q) \<noteq> [])"
  by (simp add: analyzeQuery_def Let_def)

lemma relevance_formula:
  "calculateRelevanceScore r qa =
     max 0 (100 + (case searchType r of Semantic \<Rightarrow> 50 | Exact \<Rightarrow> 40
                   | Fuzzy \<Rightarrow> 20 | Partial \<Rightarrow> 10)
            - score r * 100
            + (case contextScore r of Some c \<Rightarrow> c | None \<Rightarrow> 0)
            + (if isSpecific qa \<and> category (hitItem r) = ''section'' then 20 else 0))"
  by (simp add: calculateRelevanceScore_def Let_def split: search_type.split option.split)

lemma relevance_strategy_order:
  assumes "score r \<le> 1" "\<forall>c. contextScore r = Some c \<longrightarrow> 0 \<le> c"
  shows "calculateRelevanceScore (r\<lparr>searchType := Exact\<rparr>) qa
           < calculateRelevanceScore (r\<lparr>searchType := Semantic\<rparr>) qa"
    and "calculateRelevanceScore (r\<lparr>searchType := Fuzzy\<rparr>) qa
           < calculateRelevanceScore (r\<lparr>searchType := Exact\<rparr>) qa"
    and "calculateRelevanceScore (r\<lparr>searchType := Partial\<rparr>) qa
           < calculateRelevanceScore (r\<lparr>searchType := Fuzzy\<rparr>) qa"
  using assms by (auto simp: calculateRelevanceScore_def Let_def split: option.split)

lemma sliced_sorted:
  "sorted (map (\<lambda>r. - relevanceScore r) (sliceTo l (sort_key (\<lambda>r. - relevanceScore r) xs)))"
  unfolding sliceTo_def by (auto simp: take_map[symmetric] intro!: sorted_wrt_take)

lemma search_sorted:
  "sorted (map (\<lambda>x. - res_relevanceScore x) (resp_results (search fuse query options s)))"
  by (simp add: search_def emptyResponse_def Let_def comp_def sliced_sorted split: option.split)

text \<open>
  C1. The composite relevance score of a hit is
  \<open>max(0, 100 + strategyBonus - rawScore * 100 + contextScore + specificSectionBonus)\<close>, with
  the bonus 50, 40, 20, 10 for semantic, exact, fuzzy, partial, the context score added
  when present, and 20 added exactly when the query analysis is specific (a location and a
  topic were both detected) and the record's category is \<open>section\<close>. The results of
  \<open>search\<close> are in descending order of this score, and for a hit with a raw score of at
  most 1 (the range of the index and of the context strategy) and a context score that is
  absent or not negative, changing only the strategy orders the scores
  semantic > exact > fuzzy > partial. Numbers are exact reals in the model.
\<close>

theorem calculateRelevanceScore_composite:
  "calculateRelevanceScore r qa =
     max 0 (100 + (case searchType r of Semantic \<Rightarrow> 50 | Exact \<Rightarrow> 40
                   | Fuzzy \<Rightarrow> 20 | Partial \<Rightarrow> 10)
            - score r * 100
            + (case contextScore r of Some c \<Rightarrow> c | None \<Rightarrow> 0)
            + (if isSpecific qa \<and> category (hitItem r) = ''section'' then 20 else 0)) \<and>
   isSpecific (analyzeQuery q) =
     (locations (analyzeQuery q) \<noteq> [] \<and> topics (analyzeQuery q) \<noteq> []) \<and>
   sorted (map (\<lambda>x. - res_relevanceScore x) (resp_results (search fuse query options s))) \<and>
   (score r \<le> 1 \<and> (\<forall>c. contextScore r = Some c \<longrightarrow> 0 \<le> c) \<longrightarrow>
      calculateRelevanceScore (r\<lparr>searchType := Exact\<rparr>) qa
        < calculateRelevanceScore (r\<lparr>searchType := Semantic\<rparr>) qa \<and>
      calculateRelevanceScore (r\<lparr>searchType := Fuzzy\<rparr>) qa
        < calculateRelevanceScore (r\<lparr>searchType := Exact\<rparr>) qa \<and>
      calculateRelevanceScore (r\<lparr>searchType := Partial\<rparr>) qa
        < calculateRelevanceScore (r\<lparr>searchType := Fuzzy\<rparr>) qa)"
  using relevance_formula[of r qa] analyzeQuery_isSpecific[of q]
    search_sorted[of fuse query options s] relevance_strategy_order[of r qa]
  by blast

lemma exampleHit_in_range:
  "score exampleHit \<le> 1 \<and> (\<forall>c. contextScore exampleHit = Some c \<longrightarrow> 0 \<le> c)"
  by (simp add: exampleHit_def)

lemma exampleHit_scores:
  "calculateRelevanceScore (exampleHit\<lparr>searchType := Semantic\<rparr>) (analyzeQuery ''health in perth'') = 125 \<and>
   calculateRelevanceScore (exampleHit\<lparr>searchType := Partial\<rparr>) (analyzeQuery ''health in perth'') = 85"
  by code_simp

theorem calculateRelevanceScore_composite_witness:
  "score exampleHit \<le> 1 \<and> contextScore exampleHit = None \<and>
   calculateRelevanceScore (exampleHit\<lparr>searchType := Semantic\<rparr>) (analyzeQuery ''health in perth'') = 125 \<and>
   calculateRelevanceScore (exampleHit\<lparr>searchType := Exact\<rparr>) (analyzeQuery ''health in perth'')
     < calculateRelevanceScore (exampleHit\<lparr>searchType := Semantic\<rparr>) (analyzeQuery ''health in perth'') \<and>
   calculateRelevanceScore (exampleHit\<lparr>searchType := Fuzzy\<rparr>) (analyzeQuery ''health in perth'')
     < calculateRelevanceScore (exampleHit\<lparr>searchType := Exact\<rparr>) (analyzeQuery ''health in perth'') \<and>
   calculateRelevanceScore (exampleHit\<lparr>searchType := Partial\<rparr>) (analyzeQuery ''health in perth'')
     < calculateRelevanceScore (exampleHit\<lparr>searchType := Fuzzy\<rparr>) (analyzeQuery ''health in perth'')"
proof -
  have "contextScore exampleHit = None" by (simp add: exampleHit_def)
  then show ?thesis
    using calculateRelevanceScore_composite[of exampleHit "analyzeQuery ''health in perth''"]
      exampleHit_in_range exampleHit_scores
    by blast
qed

subsection \<open>Section content\<close>

lemma addHeading_content:
  "\<forall>sec \<in> set secs. length (sec_content sec) \<le> 1000 \<Longrightarrow>
   \<forall>sec \<in> set (addHeading pageUrl secs h). length (sec_content sec) \<le> 1000"
  by (auto simp: addHeading_def Let_def extractSectionContent_def substring0_def)

lemma foldl_addHeading_content:
  "\<forall>sec \<in> set secs. length (sec_content sec) \<le> 1000 \<Longrightarrow>
   \<forall>sec \<in> set (foldl (addHeading pageUrl) secs hs). length (sec_content sec) \<le> 1000"
proof (induction hs arbitrary: secs)
  case Nil
  then show ?case by simp
next
  case (Cons h hs)
  show ?case using Cons.IH[OF addHeading_content[OF Cons.prems]] by simp
qed

lemma longText_collected:
  "length (trim (collectSiblings ''H2'' (following (hd (headings longTextPage))) [])) = 1200"
  by code_simp

text \<open>
  C7. The content that \<open>extractSectionContent\<close> returns for a heading has at most 1000
  characters, whatever its following siblings hold, and so has the content of every
  section of a parsed page; the function is total, so the cut is never an error.
\<close>

theorem extractSectionContent_length:
  "length (extractSectionContent h) \<le> 1000 \<and>
   (\<forall>sec \<in> set (ps_sections (parsePageStructure d pageUrl src tgs)).
      length (sec_content sec) \<le> 1000)"
  using foldl_addHeading_content[of "[]" pageUrl "headings d"]
  by (simp add: extractSectionContent_def substring0_def parsePageStructure_def)

theorem extractSectionContent_length_witness:
  "length (trim (collectSiblings ''H2'' (following (hd (headings longTextPage))) [])) = 1200 \<and>
   length (extractSectionContent (hd (headings longTextPage))) \<le> 1000"
  using extractSectionContent_length[of "hd (headings longTextPage)"] longText_collected
  by blast

subsection \<open>The empty-result sentinel of search\<close>

text \<open>
  C6 as stated fails: a query of three spaces is truthy, so \<open>search\<close> does not return
  early on it; with an index that answers the quoted query the result set is not empty.
\<close>

theorem search_whitespace_counterexample:
  "resp_total (search whitespaceFuse ''   '' noOptions
     (snd (addCustomData quietWorld customNote newIndexer))) = 1"
  by code_simp

text \<open>
  C6, amended. \<open>search\<close> returns the empty result set (no results, total 0), and never
  an error, whenever the index has not been built or the query is empty; in particular for
  the query \<open>""\<close>.
\<close>

theorem search_empty_sentinel:
  "(searchIndex s = None \<or> query = [] \<longrightarrow>
      search fuse query options s =
        \<lparr>resp_results = [], resp_total = 0, resp_query = query, resp_filters = options,
         resp_suggestions = []\<rparr>) \<and>
   resp_results (search fuse [] options s) = [] \<and> resp_total (search fuse [] options s) = 0"
  by (auto simp: search_def emptyResponse_def split: option.split)

theorem search_empty_sentinel_witness:
  "searchIndex newIndexer = None \<and>
   search whitespaceFuse ''census'' noOptions newIndexer =
     \<lparr>resp_results = [], resp_total = 0, resp_query = ''census'', resp_filters = noOptions,
      resp_suggestions = []\<rparr>"
  using search_empty_sentinel[of newIndexer "''census''" whitespaceFuse noOptions]
  by (simp add: newIndexer_def)

subsection \<open>Statistics\<close>

text \<open>
  C9 as stated fails: the total of \<open>getStats\<close> leaves the content sections out, which
  are indexed. After the first indexing of the small site the index holds three records
  (two documents and one section) and the total is 2.
\<close>

theorem getStats_total_counterexample:
  "st_total (getStats (initialize smallWeb newIndexer)) = 2 \<and>
   map category (the (searchIndex (initialize smallWeb newIndexer))) =
     [''document'', ''document'', ''section'']"
  by code_simp

text \<open>
  C9, amended. \<open>getStats\<close> returns the counts of the datasets, APIs and documents, their
  sum as the total, and the time of the last update; it has no count of sections and no
  breakdown, and the content sections do not change it.
\<close>

theorem getStats_counts:
  "getStats s =
     \<lparr>st_datasets = length (datasets s), st_apis = length (apis s),
      st_documents = length (documents s),
      st_total = st_datasets (getStats s) + st_apis (getStats s) + st_documents (getStats s),
      st_lastUpdated = indexerLastUpdated s\<rparr> \<and>
   getStats (s\<lparr>contentSections := cs\<rparr>) = getStats s"
  by (simp add: getStats_def)

subsection \<open>Section identifiers\<close>

lemma addHeading_ok:
  assumes "\<forall>sec \<in> set secs. sectionIdOk pageUrl sec \<and> sec_title sec \<in> T"
  shows "\<forall>sec \<in> set (addHeading pageUrl secs h).
           sectionIdOk pageUrl sec \<and> sec_title sec \<in> insert (trim (headingText h)) T"
  using assms
  by (auto simp: addHeading_def Let_def sectionIdOk_def generateSectionId_def substring0_def)

lemma foldl_addHeading_ok:
  "\<forall>sec \<in> set secs. sectionIdOk pageUrl sec \<and> sec_title sec \<in> T \<Longrightarrow>
   \<forall>sec \<in> set (foldl (addHeading pageUrl) secs hs).
      sectionIdOk pageUrl sec \<and> sec_title sec \<in> T \<union> (\<lambda>h. trim (headingText h)) ` set hs"
proof (induction hs arbitrary: secs T)
  case Nil
  then show ?case by simp
next
  case (Cons h hs)
  have "\<forall>sec \<in> set (foldl (addHeading pageUrl) (addHeading pageUrl secs h) hs).
          sectionIdOk pageUrl sec \<and>
          sec_title sec \<in> insert (trim (headingText h)) T \<union> (\<lambda>h. trim (headingText h)) ` set hs"
    by (rule Cons.IH[OF addHeading_ok[OF Cons.prems]])
  then show ?case by simp
qed

lemma longHeadings_ids:
  "map sec_id (ps_sections (parsePageStructure longHeadingsPage dewrUrl [] [])) =
     [''employment-and-workplace-relations-statistics-for-'',
      ''employment-and-workplace-relations-statistics-for-'']"
  by code_simp

text \<open>
  C10. Every section that \<open>parsePageStructure\<close> produces is titled with the trimmed text
  of a heading of the page, its id is the \<open>generateId\<close> slug of that text cut to at most
  50 characters, and its anchor URL is the page URL, \<open>#\<close> and that id; so two headings
  whose slugs agree on the first 50 characters get the same section id.
\<close>

theorem section_ids_truncated_slug:
  "(\<forall>sec \<in> set (ps_sections (parsePageStructure d pageUrl src tgs)).
      sec_title sec \<in> (\<lambda>h. trim (headingText h)) ` set (headings d) \<and>
      sec_id sec = substring0 50 (generateId (sec_title sec)) \<and> length (sec_id sec) \<le> 50 \<and>
      sec_url sec = pageUrl @ ''#'' @ sec_id sec) \<and>
   (substring0 50 (generateId t1) = substring0 50 (generateId t2) \<longrightarrow>
      generateSectionId t1 = generateSectionId t2)"
  using foldl_addHeading_ok[of "[]" pageUrl "{}" "headings d"]
  by (auto simp: parsePageStructure_def sectionIdOk_def generateSectionId_def)

theorem section_ids_truncated_slug_witness:
  "map sec_id (ps_sections (parsePageStructure longHeadingsPage dewrUrl [] [])) =
     [''employment-and-workplace-relations-statistics-for-'',
      ''employment-and-workplace-relations-statistics-for-''] \<and>
   sec_id (hd (ps_sections (parsePageStructure longHeadingsPage dewrUrl [] []))) =
     substring0 50 (generateId
       (sec_title (hd (ps_sections (parsePageStructure longHeadingsPage dewrUrl [] []))))) \<and>
   sec_url (hd (ps_sections (parsePageStructure longHeadingsPage dewrUrl [] []))) =
     dewrUrl @ ''#'' @ sec_id (hd (ps_sections (parsePageStructure longHeadingsPage dewrUrl [] [])))"
proof -
  have "ps_sections (parsePageStructure longHeadingsPage dewrUrl [] []) \<noteq> []"
    using longHeadings_ids by auto
  then have "hd (ps_sections (parsePageStructure longHeadingsPage dewrUrl [] []))
               \<in> set (ps_sections (parsePageStructure longHeadingsPage dewrUrl [] []))"
    by simp
  then show ?thesis
    using section_ids_truncated_slug[of longHeadingsPage dewrUrl "[]" "[]"] longHeadings_ids
    by blast
qed

subsection \<open>The merge of the strategies\<close>

lemma map_of_mapSet: "map_of (mapSet k v m) = (map_of m)(k \<mapsto> v)"
  by (induction m) (auto simp: fun_eq_iff)

lemma set_mapSet: "set (mapSet k v m) \<subseteq> insert (k, v) (set m)"
  by (induction m) auto

lemma keys_mapSet: "fst ` set (mapSet k v m) = insert k (fst ` set m)"
  by (induction m) auto

lemma distinct_mapSet: "distinct (map fst m) \<Longrightarrow> distinct (map fst (mapSet k v m))"
proof (induction m)
  case Nil
  then show ?case by simp
next
  case (Cons p ps)
  then show ?case using keys_mapSet[of k v ps] by (auto simp: image_iff)
qed

lemma mergeStep_cases:
  "mergeStep qa m r = m \<or> mergeStep qa m r = mapSet (mergeKey r) (entryOf qa r) m"
  by (simp add: mergeStep_def Let_def entryOf_def split: option.split)

lemma mergeInv_mapSet: "mergeInv m \<Longrightarrow> mergeInv (mapSet (mergeKey r) (entryOf qa r) m)"
  unfolding mergeInv_def using set_mapSet[of "mergeKey r" "entryOf qa r" m]
  by (auto simp: distinct_mapSet entryOf_def)

lemma mergeInv_step: "mergeInv m \<Longrightarrow> mergeInv (mergeStep qa m r)"
  using mergeStep_cases[of qa m r] mergeInv_mapSet[of m r qa] by auto

lemma keys_step: "fst ` set (mergeStep qa m r) = insert (mergeKey r) (fst ` set m)"
proof (cases "map_of m (mergeKey r)")
  case None
  then show ?thesis by (simp add: mergeStep_def Let_def keys_mapSet)
next
  case (Some e)
  then have "mergeKey r \<in> fst ` set m" by (meson domI domIff map_of_eq_None_iff)
  then have same: "insert (mergeKey r) (fst ` set m) = fst ` set m" by auto
  from mergeStep_cases[of qa m r] show ?thesis
  proof
    assume "mergeStep qa m r = m"
    then show ?thesis by (simp only: same)
  next
    assume "mergeStep qa m r = mapSet (mergeKey r) (entryOf qa r) m"
    then show ?thesis by (simp only: keys_mapSet)
  qed
qed

lemma mergeInv_foldl: "mergeInv m \<Longrightarrow> mergeInv (foldl (mergeStep qa) m rs)"
  by (induction rs arbitrary: m) (auto simp: mergeInv_step)

lemma keys_foldl: "fst ` set (foldl (mergeStep qa) m rs) = fst ` set m \<union> mergeKey ` set rs"
  by (induction rs arbitrary: m) (auto simp: keys_step)

lemma lookup_step_other: "mergeKey r \<noteq> k \<Longrightarrow> map_of (mergeStep qa m r) k = map_of m k"
  using mergeStep_cases[of qa m r] by (auto simp: map_of_mapSet)

lemma lookup_foldl_other:
  "\<forall>x \<in> set rs. mergeKey x \<noteq> k \<Longrightarrow> map_of (foldl (mergeStep qa) m rs) k = map_of m k"
  by (induction rs arbitrary: m) (auto simp: lookup_step_other)

lemma lookup_step_new:
  "map_of m (mergeKey r) = None \<Longrightarrow>
   map_of (mergeStep qa m r) (mergeKey r) = Some (entryOf qa r)"
  by (simp add: mergeStep_def Let_def map_of_mapSet entryOf_def)

lemma lookup_step_old:
  "map_of m (mergeKey r) = Some e \<Longrightarrow>
   map_of (mergeStep qa m r) (mergeKey r) =
     Some (if searchType r = Semantic \<or>
              (score r < score (rankedHit e) \<and> searchType r \<noteq> Partial)
           then entryOf qa r else e)"
  by (simp add: mergeStep_def Let_def map_of_mapSet entryOf_def)

lemma lookup_step_partial:
  assumes "map_of m k = Some e" "mergeKey r \<noteq> k \<or> searchType r = Partial"
  shows "map_of (mergeStep qa m r) k = Some e"
proof (cases "mergeKey r = k")
  case True
  then have "mergeStep qa m r = m" using assms by (simp add: mergeStep_def Let_def)
  then show ?thesis using assms(1) by simp
next
  case False
  then show ?thesis using assms(1) by (simp add: lookup_step_other)
qed

lemma lookup_foldl_partial:
  "map_of m k = Some e \<Longrightarrow> \<forall>x \<in> set rs. mergeKey x \<noteq> k \<or> searchType x = Partial \<Longrightarrow>
   map_of (foldl (mergeStep qa) m rs) k = Some e"
  by (induction rs arbitrary: m) (auto simp: lookup_step_partial)

lemma filter_key:
  "distinct (map fst m) \<Longrightarrow> map_of m k = Some v \<Longrightarrow> filter (\<lambda>p. fst p = k) m = [(k, v)]"
proof (induction m)
  case Nil
  then show ?case by simp
next
  case (Cons p ps)
  show ?case
  proof (cases "fst p = k")
    case True
    with Cons.prems have "filter (\<lambda>p. fst p = k) ps = []"
      by (auto simp: filter_empty_conv image_iff)
    with True Cons.prems show ?thesis by (cases p) auto
  next
    case False
    with Cons show ?thesis by auto
  qed
qed

lemma dedupe_filter:
  assumes "mergeInv m" "map_of m k = Some v"
  shows "filter (\<lambda>e. mergeKey (rankedHit e) = k) (map snd m) = [v]"
proof -
  have "filter (\<lambda>e. mergeKey (rankedHit e) = k) (map snd m) =
        map snd (filter (\<lambda>p. fst p = k) m)"
    using assms(1) unfolding mergeInv_def filter_map comp_def
    by (intro arg_cong[where f="map snd"] filter_cong) auto
  also have "\<dots> = [v]" using filter_key[of m k v] assms by (simp add: mergeInv_def)
  finally show ?thesis .
qed

lemma exact_then_fuzzy:
  assumes "mergeKey a = k" "mergeKey b = k" "searchType a = Exact" "searchType b = Fuzzy"
    and "\<forall>x \<in> set (xs @ ys). mergeKey x \<noteq> k"
    and "\<forall>x \<in> set zs. mergeKey x \<noteq> k \<or> searchType x = Partial"
  shows "filter (\<lambda>e. mergeKey (rankedHit e) = k) (dedupe qa (xs @ a # ys @ b # zs)) =
           [entryOf qa (if score b < score a then b else a)]"
proof -
  let ?f = "foldl (mergeStep qa)"
  define m1 where "m1 = ?f [] xs"
  define m2 where "m2 = mergeStep qa m1 a"
  define m3 where "m3 = ?f m2 ys"
  define m4 where "m4 = mergeStep qa m3 b"
  define m5 where "m5 = ?f m4 zs"
  have all: "?f [] (xs @ a # ys @ b # zs) = m5"
    by (simp add: m1_def m2_def m3_def m4_def m5_def)
  have l1: "map_of m1 k = None" using assms(5) by (simp add: m1_def lookup_foldl_other)
  have l2: "map_of m2 k = Some (entryOf qa a)"
    using l1 assms(1) lookup_step_new[of m1 a qa] by (simp add: m2_def)
  have l3: "map_of m3 k = Some (entryOf qa a)"
    using l2 assms(5) by (simp add: m3_def lookup_foldl_other)
  have l4: "map_of m4 k = Some (entryOf qa (if score b < score a then b else a))"
    using l3 assms(2,4) lookup_step_old[of m3 b "entryOf qa a" qa]
    by (simp add: m4_def entryOf_def)
  have l5: "map_of m5 k = Some (entryOf qa (if score b < score a then b else a))"
    unfolding m5_def by (rule lookup_foldl_partial[OF l4 assms(6)])
  have inv: "mergeInv m5"
    unfolding m5_def m4_def m3_def m2_def m1_def
    by (intro mergeInv_foldl mergeInv_step) (simp add: mergeInv_def)
  show ?thesis
    unfolding dedupe_def all by (rule dedupe_filter[OF inv l5])
qed

lemma dedupe_key_list:
  "map (\<lambda>e. mergeKey (rankedHit e)) (dedupe qa rs) = map fst (foldl (mergeStep qa) [] rs)"
proof -
  have "mergeInv (foldl (mergeStep qa) [] rs)"
    by (rule mergeInv_foldl) (simp add: mergeInv_def)
  then show ?thesis unfolding dedupe_def mergeInv_def by (auto simp: comp_def)
qed

lemma dedupe_distinct: "distinct (map (\<lambda>e. mergeKey (rankedHit e)) (dedupe qa rs))"
proof -
  have "mergeInv (foldl (mergeStep qa) [] rs)"
    by (rule mergeInv_foldl) (simp add: mergeInv_def)
  then show ?thesis by (simp add: dedupe_key_list mergeInv_def)
qed

lemma dedupe_keys: "(\<lambda>e. mergeKey (rankedHit e)) ` set (dedupe qa rs) = mergeKey ` set rs"
proof -
  have "set (map (\<lambda>e. mergeKey (rankedHit e)) (dedupe qa rs)) =
        set (map fst (foldl (mergeStep qa) [] rs))"
    by (simp only: dedupe_key_list)
  then show ?thesis using keys_foldl[of qa "[]" rs] by simp
qed

text \<open>
  C2 as stated fails: for the query \<open>tax stats\<close> the record is hit by the exact strategy
  with score 1/2 and by the fuzzy strategy with score 1/100; the fuzzy hit has the strictly
  lower score and is not partial, so it replaces the exact one, and the one entry of the
  output is tagged \<open>fuzzy\<close>.
\<close>

theorem dedupe_exact_fuzzy_counterexample:
  "map res_searchType (resp_results (search phraseFuse ''tax stats'' noOptions
     (snd (addCustomData quietWorld taxNote newIndexer)))) = [Fuzzy]"
  by code_simp

text \<open>
  C2, amended. Hits are grouped by record id, or by title when the id is absent. A hit for
  a key that is already stored replaces the stored one exactly when it is semantic, or has
  a strictly lower raw score and is not partial; so a partial hit never replaces a stored
  hit. The output has exactly one entry for every key that was hit. For a record hit by
  the exact and then by the fuzzy strategy, and otherwise only by partial hits after them,
  that entry is the fuzzy hit when its raw score is strictly lower than the exact one's,
  and the exact hit otherwise.
\<close>

theorem dedupe_replacement_rule:
  "mergeKey r = (if item_id (hitItem r) \<noteq> [] then item_id (hitItem r) else title (hitItem r)) \<and>
   (map_of m (mergeKey r) = None \<longrightarrow>
      mergeStep qa m r = mapSet (mergeKey r) (entryOf qa r) m) \<and>
   (map_of m (mergeKey r) = Some e \<longrightarrow>
      mergeStep qa m r =
        (if searchType r = Semantic \<or>
            (score r < score (rankedHit e) \<and> searchType r \<noteq> Partial)
         then mapSet (mergeKey r) (entryOf qa r) m else m)) \<and>
   (map_of m (mergeKey r) = Some e \<and> searchType r = Partial \<longrightarrow> mergeStep qa m r = m) \<and>
   distinct (map (\<lambda>e. mergeKey (rankedHit e)) (dedupe qa rs)) \<and>
   (\<lambda>e. mergeKey (rankedHit e)) ` set (dedupe qa rs) = mergeKey ` set rs \<and>
   (mergeKey a = k \<and> mergeKey b = k \<and> searchType a = Exact \<and> searchType b = Fuzzy \<and>
    (\<forall>x \<in> set (xs @ ys). mergeKey x \<noteq> k) \<and>
    (\<forall>x \<in> set zs. mergeKey x \<noteq> k \<or> searchType x = Partial) \<longrightarrow>
      filter (\<lambda>e. mergeKey (rankedHit e) = k) (dedupe qa (xs @ a # ys @ b # zs)) =
        [entryOf qa (if score b < score a then b else a)])"
proof (intro conjI impI)
  show "mergeKey r = (if item_id (hitItem r) \<noteq> [] then item_id (hitItem r) else title (hitItem r))"
    by (simp add: mergeKey_def orElse_def)
  show "mergeStep qa m r = mapSet (mergeKey r) (entryOf qa r) m"
    if "map_of m (mergeKey r) = None"
    using that by (simp add: mergeStep_def Let_def entryOf_def)
  show "mergeStep qa m r =
        (if searchType r = Semantic \<or> (score r < score (rankedHit e) \<and> searchType r \<noteq> Partial)
         then mapSet (mergeKey r) (entryOf qa r) m else m)"
    if "map_of m (mergeKey r) = Some e"
    using that by (simp add: mergeStep_def Let_def entryOf_def)
  show "mergeStep qa m r = m" if "map_of m (mergeKey r) = Some e \<and> searchType r = Partial"
    using that by (simp add: mergeStep_def Let_def)
  show "distinct (map (\<lambda>e. mergeKey (rankedHit e)) (dedupe qa rs))"
    by (rule dedupe_distinct)
  show "(\<lambda>e. mergeKey (rankedHit e)) ` set (dedupe qa rs) = mergeKey ` set rs"
    by (rule dedupe_keys)
  show "filter (\<lambda>e. mergeKey (rankedHit e) = k) (dedupe qa (xs @ a # ys @ b # zs)) =
        [entryOf qa (if score b < score a then b else a)]"
    if "mergeKey a = k \<and> mergeKey b = k \<and> searchType a = Exact \<and> searchType b = Fuzzy \<and>
        (\<forall>x \<in> set (xs @ ys). mergeKey x \<noteq> k) \<and>
        (\<forall>x \<in> set zs. mergeKey x \<noteq> k \<or> searchType x = Partial)"
    using that exact_then_fuzzy[of a k b xs ys zs qa] by blast
qed

lemma taxHits_facts:
  "mergeKey exactTaxHit = ''Stats on tax'' \<and> mergeKey fuzzyTaxHit = ''Stats on tax'' \<and>
   searchType exactTaxHit = Exact \<and> searchType fuzzyTaxHit = Fuzzy \<and>
   score fuzzyTaxHit < score exactTaxHit"
  by (simp add: exactTaxHit_def fuzzyTaxHit_def mergeKey_def orElse_def taxNote_def emptyItem_def)

theorem dedupe_replacement_rule_witness:
  "mergeKey exactTaxHit = ''Stats on tax'' \<and> mergeKey fuzzyTaxHit = ''Stats on tax'' \<and>
   searchType exactTaxHit = Exact \<and> searchType fuzzyTaxHit = Fuzzy \<and>
   filter (\<lambda>e. mergeKey (rankedHit e) = ''Stats on tax'')
     (dedupe (analyzeQuery ''tax stats'') [exactTaxHit, fuzzyTaxHit]) =
     [entryOf (analyzeQuery ''tax stats'') fuzzyTaxHit]"
proof -
  have "mergeKey exactTaxHit = ''Stats on tax'' \<and> mergeKey fuzzyTaxHit = ''Stats on tax'' \<and>
        searchType exactTaxHit = Exact \<and> searchType fuzzyTaxHit = Fuzzy \<and>
        (\<forall>x \<in> set ([] @ []). mergeKey x \<noteq> ''Stats on tax'') \<and>
        (\<forall>x \<in> set []. mergeKey x \<noteq> ''Stats on tax'' \<or> searchType x = Partial) \<longrightarrow>
        filter (\<lambda>e. mergeKey (rankedHit e) = ''Stats on tax'')
          (dedupe (analyzeQuery ''tax stats'') ([] @ exactTaxHit # [] @ fuzzyTaxHit # [])) =
          [entryOf (analyzeQuery ''tax stats'')
             (if score fuzzyTaxHit < score exactTaxHit then fuzzyTaxHit else exactTaxHit)]"
    using dedupe_replacement_rule[where a = exactTaxHit and k = "''Stats on tax''"
        and b = fuzzyTaxHit and xs = "[]" and ys = "[]" and zs = "[]"
        and qa = "analyzeQuery ''tax stats''"]
    by blast
  then show ?thesis using taxHits_facts by simp
qed

subsection \<open>The crawler\<close>

lemma fold_invariant:
  "(\<And>x st. x \<in> set xs \<Longrightarrow> I st \<Longrightarrow> I (f x st)) \<Longrightarrow> I s \<Longrightarrow> I (fold f xs s)"
  by (induction xs arbitrary: s) auto

lemma deepCrawl_unfold:
  "deepCrawlWebsite w u opts d s =
     (if d \<ge> maxDepthOf opts \<or> u \<in> crawledUrls s then s
      else case httpGet w u of None \<Rightarrow> markCrawled u s
           | Some body \<Rightarrow>
               let s2 = storePage w u opts body (markCrawled u s)
               in if d < maxDepthOf opts - 1
                  then (case extractInternalLinks w (cheerioLoad w body) u (crawledUrls s2) of
                          None \<Rightarrow> s2
                        | Some ls \<Rightarrow>
                            fold (\<lambda>link st. deepCrawlWebsite w link opts (d + 1) st)
                                 (take 5 (filterRelevantLinks ls (opt_tags opts))) s2)
                  else s2)"
  by (subst deepCrawlWebsite.simps) (simp add: markCrawled_def storePage_def Let_def split: option.split)

lemma set_uniqueFirst: "set (uniqueFirst seen xs) \<subseteq> set xs"
  by (induction xs arbitrary: seen) auto

lemma internalLink_resolved:
  "a \<in> set (internalLink w u host cr href) \<Longrightarrow> resolveUrl w href u = Some a"
  by (auto simp: internalLink_def split: if_splits option.splits)

lemma extracted_links:
  assumes "extractInternalLinks w dm u cr = Some ls" "a \<in> set ls"
  shows "\<exists>href \<in> set (hrefs dm). resolveUrl w href u = Some a"
proof -
  obtain host where
    ls: "ls = uniqueFirst [] (concat (map (internalLink w u host cr) (hrefs dm)))"
    using assms(1) by (auto simp: extractInternalLinks_def split: option.splits)
  have "a \<in> set (concat (map (internalLink w u host cr) (hrefs dm)))"
    using assms(2) set_uniqueFirst[of "[]" "concat (map (internalLink w u host cr) (hrefs dm))"]
    unfolding ls by blast
  then obtain href where "href \<in> set (hrefs dm)" "a \<in> set (internalLink w u host cr href)"
    by auto
  then show ?thesis using internalLink_resolved[of a w u host cr href] by blast
qed

lemma followed_links:
  assumes "httpGet w u = Some body"
    and "extractInternalLinks w (cheerioLoad w body) u cr = Some ls"
  shows "set (take 5 (filterRelevantLinks ls tgs)) \<subseteq> set (pageLinks w u)"
proof
  fix a assume "a \<in> set (take 5 (filterRelevantLinks ls tgs))"
  then have "a \<in> set ls" by (auto simp: filterRelevantLinks_def dest: in_set_takeD)
  then obtain href where "href \<in> set (hrefs (cheerioLoad w body))" "resolveUrl w href u = Some a"
    using extracted_links[OF assms(2)] by blast
  then show "a \<in> set (pageLinks w u)"
    using assms(1) by (auto simp: pageLinks_def intro!: bexI[of _ href])
qed

lemma reachWithin_self: "u \<in> reachWithin w k u"
  by (cases k) auto

lemma reachWithin_link:
  "v \<in> set (pageLinks w u) \<Longrightarrow> reachWithin w k v \<subseteq> reachWithin w (Suc k) u"
  by auto

lemma deepCrawl_invariant:
  "(\<And>v s. v \<in> A \<Longrightarrow> I s \<Longrightarrow> v \<notin> crawledUrls s \<Longrightarrow> I (markCrawled v s)) \<Longrightarrow>
   (\<And>v s body. v \<in> A \<Longrightarrow> I s \<Longrightarrow> httpGet w v = Some body \<Longrightarrow>
      I (storePage w v opts body s)) \<Longrightarrow>
   reachWithin w (nat (maxDepthOf opts - 1 - d)) u \<subseteq> A \<Longrightarrow>
   I s \<Longrightarrow> I (deepCrawlWebsite w u opts d s)"
proof (induction w u opts d s rule: deepCrawlWebsite.induct)
  case (1 w u opts d s)
  note mark = "1.prems"(1) and store = "1.prems"(2) and sub = "1.prems"(3) and Is = "1.prems"(4)
  have uA: "u \<in> A" using sub reachWithin_self by blast
  show ?case
  proof (cases "d \<ge> maxDepthOf opts \<or> u \<in> crawledUrls s")
    case True
    then show ?thesis using Is by (subst deepCrawl_unfold) simp
  next
    case False
    then have I1: "I (markCrawled u s)" using mark uA Is by simp
    show ?thesis
    proof (cases "httpGet w u")
      case None
      then show ?thesis using False I1 by (subst deepCrawl_unfold) simp
    next
      case (Some body)
      define s2 where "s2 = storePage w u opts body (markCrawled u s)"
      have I2: "I s2" unfolding s2_def using store uA I1 Some by simp
      show ?thesis
      proof (cases "d < maxDepthOf opts - 1")
        case deeper: True
        show ?thesis
        proof (cases "extractInternalLinks w (cheerioLoad w body) u (crawledUrls s2)")
          case None
          then show ?thesis using False Some deeper I2
            by (subst deepCrawl_unfold) (simp add: s2_def Let_def)
        next
          case (Some ls)
          have k: "nat (maxDepthOf opts - 1 - d) = Suc (nat (maxDepthOf opts - 1 - (d + 1)))"
            using deeper by simp
          have step: "I (deepCrawlWebsite w x opts (d + 1) st)"
            if x: "x \<in> set (take 5 (filterRelevantLinks ls (opt_tags opts)))" and st: "I st" for x st
          proof -
            have "x \<in> set (pageLinks w u)"
              using followed_links[OF \<open>httpGet w u = Some body\<close> Some] x by blast
            then have sub': "reachWithin w (nat (maxDepthOf opts - 1 - (d + 1))) x \<subseteq> A"
              using sub reachWithin_link[of x w u "nat (maxDepthOf opts - 1 - (d + 1))"]
              unfolding k by blast
            show ?thesis
              by (rule "1.IH"[OF False refl \<open>httpGet w u = Some body\<close> refl refl deeper
                    Some[unfolded s2_def storePage_def markCrawled_def Let_def] x mark store sub' st])
          qed
          have "I (fold (\<lambda>link st. deepCrawlWebsite w link opts (d + 1) st)
                     (take 5 (filterRelevantLinks ls (opt_tags opts))) s2)"
            by (rule fold_invariant[where I = I, OF step I2])
          then show ?thesis using False \<open>httpGet w u = Some body\<close> deeper Some
            by (subst deepCrawl_unfold) (simp add: s2_def Let_def)
        qed
      next
        case False
        then show ?thesis using \<open>\<not> (d \<ge> maxDepthOf opts \<or> u \<in> crawledUrls s)\<close> Some I2
          by (subst deepCrawl_unfold) (simp add: s2_def Let_def)
      qed
    qed
  qed
qed

lemma crawl_within:
  assumes "reachWithin w (nat (maxDepthOf opts - 1 - d)) u \<subseteq> A"
  shows "crawledWithin A s (deepCrawlWebsite w u opts d s)"
proof (rule deepCrawl_invariant[where I = "crawledWithin A s" and A = A, OF _ _ assms])
  show "crawledWithin A s s" by (simp add: crawledWithin_def)
  show "crawledWithin A s (markCrawled v st)" if "v \<in> A" "crawledWithin A s st" for v st
    using that by (auto simp: crawledWithin_def markCrawled_def)
  show "crawledWithin A s (storePage w v opts body st)"
    if "v \<in> A" "crawledWithin A s st" for v st body
    using that
    by (auto simp: crawledWithin_def storePage_def Let_def documentOf_def contentSectionOf_def)
qed

lemma crawl_noop:
  "currentDepth \<ge> maxDepthOf opts \<or> baseUrl \<in> crawledUrls s \<Longrightarrow>
   deepCrawlWebsite w baseUrl opts currentDepth s = s"
  by (subst deepCrawl_unfold) simp

text \<open>
  C5. A call of \<open>deepCrawlWebsite\<close> with \<open>currentDepth \<ge> maxDepth\<close>, or for a URL that is
  already in the visited set, changes nothing. A crawl started at a seed with depth 0 and
  \<open>maxDepth = N\<close> adds only documents, sections and requests for URLs that are fewer than
  \<open>N\<close> links away from the seed: each recursive call is one link further and one level
  deeper, and no call is made at level \<open>N\<close>.
\<close>

theorem crawl_depth_bound:
  "(currentDepth \<ge> maxDepthOf opts \<or> baseUrl \<in> crawledUrls s \<longrightarrow>
      deepCrawlWebsite w baseUrl opts currentDepth s = s) \<and>
   (\<forall>doc \<in> set (documents (deepCrawlWebsite w seed opts 0 s)).
      doc \<in> set (documents s) \<or>
      (\<exists>k. int k < maxDepthOf opts \<and> url doc \<in> reachWithin w k seed)) \<and>
   (\<forall>sec \<in> set (contentSections (deepCrawlWebsite w seed opts 0 s)).
      sec \<in> set (contentSections s) \<or>
      (\<exists>k. int k < maxDepthOf opts \<and> parentUrl sec \<in> reachWithin w k seed)) \<and>
   (\<forall>u \<in> set (requests (deepCrawlWebsite w seed opts 0 s)).
      u \<in> set (requests s) \<or>
      (\<exists>k. int k < maxDepthOf opts \<and> u \<in> reachWithin w k seed))"
proof (cases "maxDepthOf opts \<le> 0")
  case True
  then have "deepCrawlWebsite w seed opts 0 s = s" by (simp add: crawl_noop)
  then show ?thesis using crawl_noop[of opts currentDepth baseUrl s w] by auto
next
  case False
  define k where "k = nat (maxDepthOf opts - 1)"
  have k: "int k < maxDepthOf opts" using False by (simp add: k_def)
  have "crawledWithin (reachWithin w k seed) s (deepCrawlWebsite w seed opts 0 s)"
    by (rule crawl_within) (simp add: k_def)
  then show ?thesis
    using k crawl_noop[of opts currentDepth baseUrl s w]
    unfolding crawledWithin_def by blast
qed

lemma smallWeb_crawl:
  "map url (documents (deepCrawlWebsite smallWeb dewrUrl dewrOptions 0 newIndexer)) =
     [dewrUrl, dewrUrl @ ''data''] \<and>
   requests (deepCrawlWebsite smallWeb dewrUrl dewrOptions 0 newIndexer) =
     [dewrUrl, dewrUrl @ ''data'']"
  by code_simp

theorem crawl_depth_bound_witness:
  "map url (documents (deepCrawlWebsite smallWeb dewrUrl dewrOptions 0 newIndexer)) =
     [dewrUrl, dewrUrl @ ''data''] \<and>
   deepCrawlWebsite smallWeb (dewrUrl @ ''data/api'') dewrOptions 2 newIndexer = newIndexer \<and>
   (\<exists>k. int k < 2 \<and> dewrUrl @ ''data'' \<in> reachWithin smallWeb k dewrUrl)"
proof -
  note t = crawl_depth_bound[of dewrOptions 2 "dewrUrl @ ''data/api''" newIndexer smallWeb dewrUrl]
  have m: "maxDepthOf dewrOptions = 2" by (simp add: maxDepthOf_def dewrOptions_def)
  have noop: "deepCrawlWebsite smallWeb (dewrUrl @ ''data/api'') dewrOptions 2 newIndexer = newIndexer"
    using t m by simp
  have "dewrUrl @ ''data'' \<in> set (requests (deepCrawlWebsite smallWeb dewrUrl dewrOptions 0 newIndexer))"
    using smallWeb_crawl by simp
  moreover have "dewrUrl @ ''data'' \<notin> set (requests newIndexer)" by (simp add: newIndexer_def)
  ultimately have "\<exists>k. int k < maxDepthOf dewrOptions \<and> dewrUrl @ ''data'' \<in> reachWithin smallWeb k dewrUrl"
    using t by blast
  then show ?thesis using noop smallWeb_crawl m by simp
qed

lemma crawl_requests_distinct:
  "requestsTracked s \<Longrightarrow> requestsTracked (deepCrawlWebsite w u opts d s)"
  by (rule deepCrawl_invariant[where I = requestsTracked and A = UNIV])
     (auto simp: requestsTracked_def markCrawled_def storePage_def Let_def)

lemma smallWeb_first:
  "map url (documents (initialize smallWeb newIndexer)) = [dewrUrl, dewrUrl @ ''data'']"
  by code_simp

lemma smallWeb_first_requests:
  "requests (initialize smallWeb newIndexer) =
     [absCodelistUrl, dewrUrl, dewrUrl @ ''data'', atoUrl, absStatsUrl]"
  by code_simp

lemma smallWeb_second_requests:
  "requests (refreshData smallWeb (initialize smallWeb newIndexer)) =
     [absCodelistUrl, dewrUrl, dewrUrl @ ''data'', atoUrl, absStatsUrl, absCodelistUrl]"
  by code_simp

lemma smallWeb_second: "documents (refreshData smallWeb (initialize smallWeb newIndexer)) = []"
  by code_simp

text \<open>
  C4. Within one cycle no URL is requested twice by the crawler (\<open>crawl_requests_distinct\<close>:
  the URL is marked before its request). But the visited set is never emptied: on the small
  site the first cycle requests the seed and its data page and stores their documents; the
  refresh clears the documents, finds the seed already marked, requests only the ABS
  endpoint, and leaves the documents empty. The URL crawled in the first run is not crawled
  again in the next.
\<close>

theorem refresh_does_not_recrawl:
  "map url (documents (initialize smallWeb newIndexer)) = [dewrUrl, dewrUrl @ ''data''] \<and>
   requests (initialize smallWeb newIndexer) =
     [absCodelistUrl, dewrUrl, dewrUrl @ ''data'', atoUrl, absStatsUrl] \<and>
   requests (refreshData smallWeb (initialize smallWeb newIndexer)) =
     [absCodelistUrl, dewrUrl, dewrUrl @ ''data'', atoUrl, absStatsUrl, absCodelistUrl] \<and>
   documents (refreshData smallWeb (initialize smallWeb newIndexer)) = []"
  using smallWeb_first smallWeb_first_requests smallWeb_second_requests smallWeb_second
  by blast

subsection \<open>Refresh\<close>

lemma fetchABSData_datasets: "datasets (fetchABSData w s) = datasets s @ absDatasets w"
  by (simp add: fetchABSData_def absDatasets_def Let_def split: option.split)

lemma fetchABSData_apis:
  "\<exists>xs. apis (fetchABSData w s) = apis s @ xs \<and> (\<forall>x \<in> set xs. category x = [])"
  by (simp add: fetchABSData_def Let_def absDataflowItem_def emptyItem_def split: option.split)

lemma fetchABSData_documents:
  "\<exists>xs. documents (fetchABSData w s) = documents s @ xs \<and> (\<forall>x \<in> set xs. category x = [])"
  by (simp add: fetchABSData_def Let_def absOpenapiItem_def emptyItem_def split: option.split)

lemma crawl_frame:
  "datasets (deepCrawlWebsite w u opts d s) = datasets s \<and>
   apis (deepCrawlWebsite w u opts d s) = apis s"
  by (rule deepCrawl_invariant[where I = "\<lambda>st. datasets st = datasets s \<and> apis st = apis s"
        and A = UNIV])
     (simp_all add: markCrawled_def storePage_def Let_def)

lemma crawl_uncategorised:
  "uncategorised s \<Longrightarrow> uncategorised (deepCrawlWebsite w u opts d s)"
  by (rule deepCrawl_invariant[where I = uncategorised and A = UNIV])
     (auto simp: uncategorised_def markCrawled_def storePage_def Let_def documentOf_def
        emptyItem_def)

lemma fetchABSData_uncategorised: "uncategorised s \<Longrightarrow> uncategorised (fetchABSData w s)"
  using fetchABSData_apis[of w s] fetchABSData_documents[of w s]
  by (auto simp: uncategorised_def fetchABSData_datasets absDatasets_def absCodelistItem_def
        emptyItem_def split: option.splits)

lemma fetchAllData_uncategorised: "uncategorised s \<Longrightarrow> uncategorised (fetchAllData w s)"
  by (simp add: fetchAllData_def fetchDEWRData_def fetchATOData_def fetchABSStatsData_def
        crawl_uncategorised fetchABSData_uncategorised)

lemma fetchAllData_datasets: "datasets (fetchAllData w s) = datasets s @ absDatasets w"
  by (simp add: fetchAllData_def fetchDEWRData_def fetchATOData_def fetchABSStatsData_def
        crawl_frame fetchABSData_datasets)

lemma refresh_datasets: "datasets (refreshData w s) = absDatasets w"
  by (simp add: refreshData_def buildSearchIndex_def fetchAllData_datasets)

lemma refresh_uncategorised: "uncategorised (refreshData w s)"
proof -
  have "uncategorised (fetchAllData w (s\<lparr>datasets := [], apis := [], documents := []\<rparr>))"
    by (rule fetchAllData_uncategorised) (simp add: uncategorised_def)
  then show ?thesis by (simp add: refreshData_def buildSearchIndex_def uncategorised_def)
qed

lemma custom_categorised: "category (customItem w d) \<noteq> []"
  by (simp add: customItem_def orElse_def)

lemma custom_stored:
  "fst (addCustomData w d s) \<in> set (datasets (snd (addCustomData w d s)) @
      apis (snd (addCustomData w d s)) @ documents (snd (addCustomData w d s)))"
  by (simp add: addCustomData_def Let_def buildSearchIndex_def)

lemma custom_removed:
  "fst (addCustomData w0 d s) \<notin> set (datasets (refreshData w s1) @ apis (refreshData w s1) @
      documents (refreshData w s1))"
proof -
  have "category (fst (addCustomData w0 d s)) \<noteq> []"
    by (simp add: addCustomData_def Let_def custom_categorised)
  then show ?thesis using refresh_uncategorised[of w s1] unfolding uncategorised_def by blast
qed

lemma refresh_forgets:
  "refreshData w (s\<lparr>datasets := xs, apis := ys, documents := zs\<rparr>) = refreshData w s"
  by (simp add: refreshData_def)

lemma refresh_rebuilds:
  "datasets (refreshData w s) =
     datasets (fetchAllData w (s\<lparr>datasets := [], apis := [], documents := []\<rparr>)) \<and>
   apis (refreshData w s) =
     apis (fetchAllData w (s\<lparr>datasets := [], apis := [], documents := []\<rparr>)) \<and>
   documents (refreshData w s) =
     documents (fetchAllData w (s\<lparr>datasets := [], apis := [], documents := []\<rparr>))"
  by (simp add: refreshData_def buildSearchIndex_def)

text \<open>
  C3 as stated fails: a record submitted through \<open>addCustomData\<close> is stored in the
  datasets, and the refresh empties the datasets with everything else in them.
\<close>

theorem refresh_removes_custom_counterexample:
  "fst (addCustomData quietWorld taxNote newIndexer)
     \<in> set (datasets (snd (addCustomData quietWorld taxNote newIndexer))) \<and>
   datasets (refreshData quietWorld (snd (addCustomData quietWorld taxNote newIndexer))) = []"
  by code_simp

text \<open>
  C3, amended. \<open>refreshData\<close> clears the datasets, APIs and documents, whatever they hold:
  its result does not depend on their previous contents, and they are refilled by the fetch
  jobs run on the emptied collections. Records submitted through \<open>addCustomData\<close> live in
  these collections and are removed with the rest. After the refresh the datasets are
  exactly what the source fetch returns now, so a dataset that is no longer returned is not
  counted by \<open>getStats\<close>.
\<close>

theorem refresh_clears_fetched_collections:
  "refreshData w (s\<lparr>datasets := xs, apis := ys, documents := zs\<rparr>) = refreshData w s \<and>
   datasets (refreshData w s) =
     datasets (fetchAllData w (s\<lparr>datasets := [], apis := [], documents := []\<rparr>)) \<and>
   apis (refreshData w s) =
     apis (fetchAllData w (s\<lparr>datasets := [], apis := [], documents := []\<rparr>)) \<and>
   documents (refreshData w s) =
     documents (fetchAllData w (s\<lparr>datasets := [], apis := [], documents := []\<rparr>)) \<and>
   datasets (refreshData w s) = absDatasets w \<and>
   st_datasets (getStats (refreshData w s)) = length (absDatasets w) \<and>
   fst (addCustomData w0 d s) \<in> set (datasets (snd (addCustomData w0 d s)) @
      apis (snd (addCustomData w0 d s)) @ documents (snd (addCustomData w0 d s))) \<and>
   fst (addCustomData w0 d s) \<notin> set (datasets (refreshData w (snd (addCustomData w0 d s))) @
      apis (refreshData w (snd (addCustomData w0 d s))) @
      documents (refreshData w (snd (addCustomData w0 d s))))"
proof -
  have "st_datasets (getStats (refreshData w s)) = length (absDatasets w)"
    by (simp add: getStats_def refresh_datasets)
  then show ?thesis
    using refresh_forgets[where w = w and s = s and xs = xs and ys = ys and zs = zs]
      refresh_rebuilds[of w s] refresh_datasets[of w s] custom_stored[of w0 d s]
      custom_removed[where ?w0.0 = w0 and d = d and s = s and w = w
        and ?s1.0 = "snd (addCustomData w0 d s)"]
    by blast
qed

end
